theory Spec2Isabelle
  imports Complex_Main
begin

section \<open>Python values\<close>

text \<open>
  Exceptions of the Python code are values of type \<open>error\<close>; a function that can raise
  returns \<open>error + 'a\<close>, with \<open>Inl\<close> for the exception.
\<close>

datatype error =
    IndexError
  | UnboundLocalError
  | ValueError
  | RasterioIOError
  | URLError
  | OtherError

text \<open>
  A floating-point cell of a pandas column is a real number or NaN. NaN is \<open>None\<close>;
  rounding of the arithmetic itself is not modelled. Arithmetic with NaN gives NaN and
  every ordering comparison with NaN is false, as in IEEE 754.
\<close>

type_synonym pyfloat = "real option"

definition isnan :: "pyfloat \<Rightarrow> bool" where
  "isnan a = (a = None)"

definition py_sub :: "pyfloat \<Rightarrow> pyfloat \<Rightarrow> pyfloat" where
  "py_sub a b = (case a of None \<Rightarrow> None | Some u \<Rightarrow> (case b of None \<Rightarrow> None | Some v \<Rightarrow> Some (u - v)))"

definition py_abs :: "pyfloat \<Rightarrow> pyfloat" where
  "py_abs a = (case a of None \<Rightarrow> None | Some u \<Rightarrow> Some \<bar>u\<bar>)"

definition py_lt :: "pyfloat \<Rightarrow> pyfloat \<Rightarrow> bool" where
  "py_lt a b = (case a of None \<Rightarrow> False | Some u \<Rightarrow> (case b of None \<Rightarrow> False | Some v \<Rightarrow> u < v))"

definition py_ne :: "pyfloat \<Rightarrow> pyfloat \<Rightarrow> bool" where
  "py_ne a b = (case a of None \<Rightarrow> True | Some u \<Rightarrow> (case b of None \<Rightarrow> True | Some v \<Rightarrow> u \<noteq> v))"

text \<open>
  Python's built-in \<open>max(a, b)\<close> keeps \<open>a\<close> unless \<open>b > a\<close>; so \<open>max(nan, b)\<close> is NaN
  and \<open>max(a, nan)\<close> is \<open>a\<close>.
\<close>

definition py_max2 :: "pyfloat \<Rightarrow> pyfloat \<Rightarrow> pyfloat" where
  "py_max2 a b = (if py_lt a b then b else a)"

section \<open>Stationed profiles\<close>

text \<open>
  One row of the profile data frame built by the sampler: the columns \<open>x\<close>, \<open>y\<close>,
  \<open>h_distance\<close>, \<open>elev_grnd\<close> and \<open>elev_deck\<close>. After \<open>reset_index(drop=True)\<close> the row
  labels are the positions \<open>0, 1, ...\<close>, so a frame is the list of its rows.
\<close>

record prow =
  col_x :: real
  col_y :: real
  h_distance :: real
  elev_grnd :: pyfloat
  elev_deck :: pyfloat

subsection \<open>\<open>DataFrame.interpolate()\<close> on one column\<close>

text \<open>
  pandas' default interpolation: linear in the row position, direction forward, no limit.
  A NaN between two valid cells gets the value on the straight line between them (rows
  equally spaced); NaNs after the last valid cell repeat it; NaNs before the first valid
  cell stay NaN. \<open>next_valid xs\<close> is the offset and value of the first valid cell of \<open>xs\<close>;
  the first argument of \<open>interpolate_from\<close> is the last valid cell seen and the number of
  rows since.
\<close>

fun next_valid :: "pyfloat list \<Rightarrow> (nat \<times> real) option" where
  "next_valid [] = None"
| "next_valid (Some v # xs) = Some (0, v)"
| "next_valid (None # xs) = (case next_valid xs of None \<Rightarrow> None | Some (e, b) \<Rightarrow> Some (Suc e, b))"

fun interpolate_from :: "(real \<times> nat) option \<Rightarrow> pyfloat list \<Rightarrow> pyfloat list" where
  "interpolate_from prev [] = []"
| "interpolate_from prev (Some v # xs) = Some v # interpolate_from (Some (v, 1)) xs"
| "interpolate_from None (None # xs) = None # interpolate_from None xs"
| "interpolate_from (Some (a, d)) (None # xs) =
     (case next_valid xs of
        None \<Rightarrow> Some a
      | Some (e, b) \<Rightarrow> Some (a + (b - a) * real d / real (d + e + 1)))
     # interpolate_from (Some (a, Suc d)) xs"

definition interpolate :: "pyfloat list \<Rightarrow> pyfloat list" where
  "interpolate xs = interpolate_from None xs"

subsection \<open>\<open>fn_fix_ground_spikes\<close>\<close>

text \<open>
  The body of the loop \<open>for ind in assess\<close>, on the deck column. The reads at \<open>ind - 1\<close>
  and \<open>ind + 1\<close> are in range for every \<open>ind\<close> of \<open>assess\<close> (lemma \<open>assess_in_range\<close>).
\<close>

definition spike_step :: "nat list \<Rightarrow> nat \<Rightarrow> pyfloat list \<Rightarrow> pyfloat list" where
  "spike_step assess ind deck =
     (if ind - 1 \<notin> set assess \<or> ind + 1 \<notin> set assess then
        (if py_lt (py_max2 (py_abs (py_sub (deck ! ind) (deck ! (ind - 1))))
                           (py_abs (py_sub (deck ! ind) (deck ! (ind + 1)))))
                  (Some (1 / 2))
         then deck
         else deck[ind := None])
      else if isnan (deck ! (ind - 1)) then deck[ind := None]
      else deck)"

fun spike_loop :: "nat list \<Rightarrow> nat list \<Rightarrow> pyfloat list \<Rightarrow> pyfloat list" where
  "spike_loop assess [] deck = deck"
| "spike_loop assess (ind # rest) deck = spike_loop assess rest (spike_step assess ind deck)"

text \<open>The labels of the rows whose ground and deck elevations differ (\<open>list_ind_vals\<close>).\<close>

definition list_ind_vals :: "prow list \<Rightarrow> nat list" where
  "list_ind_vals gdf =
     filter (\<lambda>i. py_ne (elev_grnd (gdf ! i)) (elev_deck (gdf ! i))) [0 ..< length gdf]"

text \<open>\<open>sorted(set(range(first, last)) - set(list_ind_vals))\<close>\<close>

definition assess_of :: "nat list \<Rightarrow> nat list" where
  "assess_of ivs = filter (\<lambda>i. i \<notin> set ivs) [hd ivs ..< last ivs]"

text \<open>The deck column after the flagging loop and before the interpolation.\<close>

definition spike_flags :: "prow list \<Rightarrow> pyfloat list" where
  "spike_flags gdf =
     (let assess = assess_of (list_ind_vals gdf)
      in spike_loop assess assess (map elev_deck gdf))"

definition set_elev_deck :: "prow \<Rightarrow> pyfloat \<Rightarrow> prow" where
  "set_elev_deck r d = r\<lparr>elev_deck := d\<rparr>"

definition fn_fix_ground_spikes :: "prow list \<Rightarrow> error + prow list" where
  "fn_fix_ground_spikes gdf_input =
     (case list_ind_vals gdf_input of
        [] \<Rightarrow> Inl IndexError
      | _ # _ \<Rightarrow> Inr (map2 set_elev_deck gdf_input (interpolate (spike_flags gdf_input))))"

section \<open>Profile smoother\<close>

text \<open>
  \<open>scipy.signal.savgol_filter\<close> is a parameter \<open>sg\<close> of the model: called with the deck
  series, the window length and the polynomial order, it returns the filtered series or
  raises.
\<close>

type_synonym savgol = "real list \<Rightarrow> nat \<Rightarrow> nat \<Rightarrow> error + real list"

record xs_row =
  sta :: real
  ground_elev :: pyfloat
  deck_elev :: pyfloat
  max_elev_road_deck :: pyfloat

text \<open>\<open>gdf.dropna()\<close>: the rows with no NaN in any column.\<close>

definition dropna :: "prow list \<Rightarrow> prow list" where
  "dropna gdf = filter (\<lambda>r. \<not> isnan (elev_grnd r) \<and> \<not> isnan (elev_deck r)) gdf"

definition x_deck :: "prow list \<Rightarrow> real list" where
  "x_deck gdf = map h_distance (dropna gdf)"

definition y_deck :: "prow list \<Rightarrow> real list" where
  "y_deck gdf = map (\<lambda>r. the (elev_deck r)) (dropna gdf)"

definition int_window :: "nat \<Rightarrow> nat" where
  "int_window n = (let w = n div 4 in if w mod 2 = 0 then w + 1 else w)"

text \<open>The \<open>try\<close> around the filter, with its bare \<open>except\<close>.\<close>

definition w_deck :: "savgol \<Rightarrow> prow list \<Rightarrow> real list" where
  "w_deck sg gdf =
     (case sg (y_deck gdf) (int_window (length (x_deck gdf))) 2 of
        Inr w \<Rightarrow> w
      | Inl e \<Rightarrow> y_deck gdf)"

text \<open>
  \<open>df_ground.merge(df_deck, on='sta', how='left')\<close>: every ground row, in order, once
  for each deck row with the same station, or once with a NaN deck when there is none.
\<close>

definition merge_left :: "(real \<times> pyfloat) list \<Rightarrow> (real \<times> real) list \<Rightarrow> (real \<times> pyfloat \<times> pyfloat) list" where
  "merge_left df_ground df_deck =
     concat (map (\<lambda>(s, g).
        (case filter (\<lambda>(s', d). s' = s) df_deck of
           [] \<Rightarrow> [(s, g, None)]
         | m # ms \<Rightarrow> map (\<lambda>(s', d). (s, g, Some d)) (m # ms))) df_ground)"

text \<open>\<open>df.max(axis=1)\<close> over two columns skips NaN.\<close>

definition row_max :: "pyfloat \<Rightarrow> pyfloat \<Rightarrow> pyfloat" where
  "row_max g d =
     (case g of
        None \<Rightarrow> d
      | Some a \<Rightarrow> (case d of None \<Rightarrow> Some a | Some b \<Rightarrow> Some (max a b)))"

definition fn_get_smooth_deck_and_ground_profile :: "savgol \<Rightarrow> prow list \<Rightarrow> xs_row list" where
  "fn_get_smooth_deck_and_ground_profile sg gdf =
     (let df_ground = zip (map h_distance gdf) (map elev_grnd gdf);
          df_deck = zip (x_deck gdf) (w_deck sg gdf)
      in map (\<lambda>(s, g, d). \<lparr>sta = s, ground_elev = g, deck_elev = d,
                              max_elev_road_deck = row_max g d\<rparr>)
           (merge_left df_ground df_deck))"

text \<open>
  The output row of a profile row when the deck series is not smoothed: the deck value
  is there only for a row that \<open>dropna\<close> kept.
\<close>

definition raw_xs_row :: "prow \<Rightarrow> xs_row" where
  "raw_xs_row r =
     (let d = (if isnan (elev_grnd r) \<or> isnan (elev_deck r) then None else elev_deck r)
      in \<lparr>sta = h_distance r, ground_elev = elev_grnd r, deck_elev = d,
          max_elev_road_deck = row_max (elev_grnd r) d\<rparr>)"


text \<open>
  \<open>DataFrame.round(2)\<close>: numpy rounds \<open>100 * v\<close> to the nearest integer, halves to the
  even one, and divides by 100. NaN stays NaN.
\<close>

definition rint :: "real \<Rightarrow> int" where
  "rint v =
     (let f = \<lfloor>v\<rfloor>; r = v - of_int f
      in if r < 1 / 2 then f
         else if 1 / 2 < r then f + 1
         else if even f then f else f + 1)"

definition round2 :: "real \<Rightarrow> real" where
  "round2 v = of_int (rint (v * 100)) / 100"

definition py_round2 :: "pyfloat \<Rightarrow> pyfloat" where
  "py_round2 a = (case a of None \<Rightarrow> None | Some v \<Rightarrow> Some (round2 v))"

definition round_xs_row :: "xs_row \<Rightarrow> xs_row" where
  "round_xs_row r =
     \<lparr>sta = round2 (sta r), ground_elev = py_round2 (ground_elev r),
      deck_elev = py_round2 (deck_elev r),
      max_elev_road_deck = py_round2 (max_elev_road_deck r)\<rparr>"

section \<open>Dense line sampler\<close>

type_synonym point = "real \<times> real"

definition fn_distance :: "real \<Rightarrow> real \<Rightarrow> real \<Rightarrow> real \<Rightarrow> real" where
  "fn_distance x1 x2 y1 y2 = sqrt ((x1 - x2) * (x1 - x2) + (y1 - y2) * (y1 - y2))"

text \<open>shapely's distance between two points is the Euclidean one.\<close>

definition point_distance :: "point \<Rightarrow> point \<Rightarrow> real" where
  "point_distance p q = fn_distance (fst p) (fst q) (snd p) (snd q)"

text \<open>
  A raster is its nearest-cell lookup \<open>.sel(x, y, method="nearest")\<close>; a nodata cell, or
  a lookup that does not give one value, leaves the NaN the column was initialised with.
\<close>

type_synonym raster = "real \<Rightarrow> real \<Rightarrow> pyfloat"

text \<open>
  The points \<open>x_ls, y_ls\<close> of one edge: its start, and \<open>n_points - 1\<close> points after it
  at \<open>1 / n_points\<close> of the edge each, where \<open>n_points = int(len_current_edge // 1)\<close>
  (the sample interval is the constant 1).
\<close>

definition n_points_of :: "point \<Rightarrow> point \<Rightarrow> nat" where
  "n_points_of s e = nat \<lfloor>fn_distance (fst s) (fst e) (snd s) (snd e) / 1\<rfloor>"

definition edge_points :: "point \<Rightarrow> point \<Rightarrow> point list" where
  "edge_points s e =
     (let n_points = n_points_of s e;
          x_dist = fst e - fst s;
          y_dist = snd e - snd s
      in s # (if n_points > 0
              then map (\<lambda>j. (fst s + (x_dist / real n_points) * real j,
                             snd s + (y_dist / real n_points) * real j)) [1 ..< n_points]
              else []))"

text \<open>
  The rows of one edge: station = distance from the first point of the edge, plus the
  length of the edges before it; elevations from the two rasters.
\<close>

definition sample_row :: "raster \<Rightarrow> raster \<Rightarrow> point \<Rightarrow> real \<Rightarrow> point \<Rightarrow> prow" where
  "sample_row ground deck origin base p =
     \<lparr>col_x = fst p, col_y = snd p,
      h_distance = point_distance origin p + base,
      elev_grnd = ground (fst p) (snd p),
      elev_deck = deck (fst p) (snd p)\<rparr>"

definition sample_rows :: "raster \<Rightarrow> raster \<Rightarrow> point list \<Rightarrow> real \<Rightarrow> prow list" where
  "sample_rows ground deck pts base = map (sample_row ground deck (hd pts) base) pts"

text \<open>
  The loop over the edges. The state is \<open>gdf\<close> (\<open>None\<close> while the name is unbound) and
  \<open>total_length\<close>. The edge is the last one (\<open>i == len(coords) - 2\<close>) when no edge
  follows it. An edge met while \<open>total_length\<close> is still 0 takes the first branch, which
  assigns \<open>gdf\<close> and never appends the end point.
\<close>

fun sample_edges :: "raster \<Rightarrow> raster \<Rightarrow> (point \<times> point) list \<Rightarrow> prow list option \<times> real
    \<Rightarrow> error + (prow list option \<times> real)" where
  "sample_edges ground deck [] st = Inr st"
| "sample_edges ground deck ((s, e) # rest) (gdf, total_length) =
     (let len_current_edge = fn_distance (fst s) (fst e) (snd s) (snd e);
          pts = edge_points s e
      in if total_length = 0
         then sample_edges ground deck rest
                (Some (sample_rows ground deck pts 0), total_length + len_current_edge)
         else (case gdf of
                 None \<Rightarrow> Inl UnboundLocalError
               | Some rows \<Rightarrow>
                   sample_edges ground deck rest
                     (Some (rows @ sample_rows ground deck
                                     (if rest = [] then pts @ [e] else pts) total_length),
                      total_length + len_current_edge)))"

definition edges_of :: "point list \<Rightarrow> (point \<times> point) list" where
  "edges_of coords = zip coords (tl coords)"

text \<open>The sampling part of the function, before the spike repair.\<close>

definition dense_sample :: "point list \<Rightarrow> raster \<Rightarrow> raster \<Rightarrow> error + prow list" where
  "dense_sample coords ground deck =
     (case sample_edges ground deck (edges_of coords) (None, 0) of
        Inl err \<Rightarrow> Inl err
      | Inr (None, total_length) \<Rightarrow> Inl UnboundLocalError
      | Inr (Some gdf, total_length) \<Rightarrow> Inr gdf)"

definition fn_get_profile_gdf_on_major_axis_from_dems :: "point list \<Rightarrow> raster \<Rightarrow> raster \<Rightarrow> error + prow list" where
  "fn_get_profile_gdf_on_major_axis_from_dems coords ground deck =
     (case dense_sample coords ground deck of
        Inl err \<Rightarrow> Inl err
      | Inr gdf \<Rightarrow> fn_fix_ground_spikes gdf)"

section \<open>Hull centering\<close>

type_synonym linestring = "point list"

type_synonym polygon = "point list"

datatype side = LeftSide | RightSide

text \<open>
  The shapely operations the function calls are parameters of the model: \<open>wkt.loads\<close>,
  \<open>LineString.parallel_offset\<close>, \<open>shapely.ops.split\<close> (the pieces of the result's
  \<open>geoms\<close>) and the \<open>area\<close> of a piece. Each of the first three may raise.
\<close>

record shapely =
  shp_wkt_loads :: "string \<Rightarrow> error + polygon"
  shp_parallel_offset :: "linestring \<Rightarrow> real \<Rightarrow> side \<Rightarrow> error + linestring"
  shp_split :: "polygon \<Rightarrow> linestring \<Rightarrow> error + polygon list"
  shp_area :: "polygon \<Rightarrow> real"

text \<open>The single-row frame handed to the worker.\<close>

record mjr_axis_row =
  geometry :: linestring
  hull_wkt :: string
  avg_width :: real
  flt_mjr_axis :: real
  is_feet :: bool
  cog_ground_dem :: string
  hull_idx :: int
  file_path :: string

text \<open>
  The variables of one search loop. \<open>split_polygons\<close> is \<open>None\<close> while the name is
  unbound; \<open>flt_best_difference\<close> is \<open>None\<close> while it is \<open>float('inf')\<close>.
\<close>

record search_state =
  split_polygons :: "polygon list option"
  flt_best_difference :: "real option"
  flt_best_offset :: real
  current_value :: real

definition lt_best :: "real \<Rightarrow> real option \<Rightarrow> bool" where
  "lt_best d best = (case best of None \<Rightarrow> True | Some b \<Rightarrow> d < b)"

text \<open>
  One pass of \<open>for _ in range(num_iterations)\<close>; the source has the loop twice, for
  \<open>'left'\<close> and for \<open>'right'\<close>. A raising \<open>split\<close> is swallowed by \<open>except: pass\<close> and leaves
  \<open>split_polygons\<close> as it was; reading it while unbound raises. \<open>parallel_offset\<close> is
  called outside the \<open>try\<close>.
\<close>

definition consider_split :: "shapely \<Rightarrow> polygon list \<Rightarrow> search_state \<Rightarrow> search_state" where
  "consider_split S geoms st =
     (if length geoms = 2 then
        (let flt_area1 = shp_area S (geoms ! 0);
             flt_area2 = shp_area S (geoms ! 1);
             flt_difference = \<bar>flt_area1 - flt_area2\<bar>
         in if lt_best flt_difference (flt_best_difference st)
            then st\<lparr>split_polygons := Some geoms,
                    flt_best_difference := Some flt_difference,
                    flt_best_offset := current_value st\<rparr>
            else st\<lparr>split_polygons := Some geoms\<rparr>)
      else st\<lparr>split_polygons := Some geoms\<rparr>)"

fun offset_loop :: "shapely \<Rightarrow> linestring \<Rightarrow> polygon \<Rightarrow> side \<Rightarrow> real \<Rightarrow> nat \<Rightarrow> search_state
    \<Rightarrow> error + search_state" where
  "offset_loop S shp_line shp_polygon sd step 0 st = Inr st"
| "offset_loop S shp_line shp_polygon sd step (Suc n) st =
     (case shp_parallel_offset S shp_line (current_value st) sd of
        Inl err \<Rightarrow> Inl err
      | Inr shp_offset_line \<Rightarrow>
          (case (case shp_split S shp_polygon shp_offset_line of
                   Inl err \<Rightarrow> split_polygons st
                 | Inr geoms \<Rightarrow> Some geoms) of
             None \<Rightarrow> Inl UnboundLocalError
           | Some geoms \<Rightarrow>
               (let st' = consider_split S geoms st
                in offset_loop S shp_line shp_polygon sd step n
                     (st'\<lparr>current_value := current_value st' + step\<rparr>))))"

text \<open>The local variables at the end of the search (line 562 of the source).\<close>

record center_locals =
  flt_best_offset_left :: real
  flt_best_offset_right :: real
  str_side :: side
  flt_max_value :: real
  shp_line_offset :: linestring

definition num_iterations :: nat where
  "num_iterations = 100"

definition center_search :: "shapely \<Rightarrow> mjr_axis_row \<Rightarrow> error + center_locals" where
  "center_search S gdf_singlerow =
     (let shp_line = geometry gdf_singlerow in
      case shp_wkt_loads S (hull_wkt gdf_singlerow) of
        Inl err \<Rightarrow> Inl err
      | Inr shp_polygon \<Rightarrow>
          (let step = (avg_width gdf_singlerow - 0) / real num_iterations in
           case offset_loop S shp_line shp_polygon LeftSide step num_iterations
                  \<lparr>split_polygons = None, flt_best_difference = None,
                   flt_best_offset = 0, current_value = 0\<rparr> of
             Inl err \<Rightarrow> Inl err
           | Inr stl \<Rightarrow>
               (case offset_loop S shp_line shp_polygon RightSide step num_iterations
                       \<lparr>split_polygons = split_polygons stl,
                        flt_best_difference = flt_best_difference stl,
                        flt_best_offset = 0, current_value = 0\<rparr> of
                  Inl err \<Rightarrow> Inl err
                | Inr str \<Rightarrow>
                    (let right_wins = (flt_best_offset str \<ge> flt_best_offset stl);
                         sd = (if right_wins then RightSide else LeftSide);
                         mx = (if right_wins then flt_best_offset str else flt_best_offset stl)
                     in case shp_parallel_offset S shp_line mx sd of
                          Inl err \<Rightarrow> Inl err
                        | Inr off \<Rightarrow>
                            Inr \<lparr>flt_best_offset_left = flt_best_offset stl,
                                 flt_best_offset_right = flt_best_offset str,
                                 str_side = sd, flt_max_value = mx,
                                 shp_line_offset = off\<rparr>))))"

text \<open>
  \<open>gdf_singlerow.iloc[0]\<close> builds a new row object from the frame (the frame has columns
  of several types, so the row is a copy). The assignment
  \<open>gdf_singlerow.iloc[0]['geometry'] = shp_line_offset\<close> writes into that temporary,
  which is dropped; the function returns the frame it was given.
\<close>

definition iloc0 :: "mjr_axis_row \<Rightarrow> mjr_axis_row" where
  "iloc0 gdf = gdf"

definition fn_center_mjr_axis_on_hull :: "shapely \<Rightarrow> mjr_axis_row \<Rightarrow> error + mjr_axis_row" where
  "fn_center_mjr_axis_on_hull S gdf_singlerow =
     (case center_search S gdf_singlerow of
        Inl err \<Rightarrow> Inl err
      | Inr loc \<Rightarrow>
          (let row_copy = (iloc0 gdf_singlerow)\<lparr>geometry := shp_line_offset loc\<rparr>
           in Inr gdf_singlerow))"

subsection \<open>The search as the specification words it\<close>

text \<open>
  Section 4.1 of the specification keeps only the candidates that split the polygon into
  exactly two pieces; any other outcome (another number of pieces, a split that fails) is
  discarded. \<open>candidate_difference\<close> is the absolute area difference of the candidate at
  offset \<open>off\<close> on side \<open>sd\<close> when it is kept, and \<open>None\<close> when it is discarded.
\<close>

definition candidate_difference :: "shapely \<Rightarrow> linestring \<Rightarrow> polygon \<Rightarrow> side \<Rightarrow> real \<Rightarrow> real option" where
  "candidate_difference S shp_line shp_polygon sd off =
     (case shp_parallel_offset S shp_line off sd of
        Inl err \<Rightarrow> None
      | Inr shp_offset_line \<Rightarrow>
          (case shp_split S shp_polygon shp_offset_line of
             Inl err \<Rightarrow> None
           | Inr geoms \<Rightarrow>
               if length geoms = 2
               then Some \<bar>shp_area S (geoms ! 0) - shp_area S (geoms ! 1)\<bar>
               else None))"

text \<open>
  Among the candidates \<open>0, ..., n - 1\<close> with differences \<open>d\<close>, candidate \<open>k\<close> is kept, its
  difference \<open>m\<close> is the least of all kept candidates, and it is the first with that
  difference.
\<close>

definition first_best :: "(nat \<Rightarrow> real option) \<Rightarrow> nat \<Rightarrow> nat \<Rightarrow> real \<Rightarrow> bool" where
  "first_best d n k m \<longleftrightarrow>
     k < n \<and> d k = Some m
     \<and> (\<forall>j<n. \<forall>v. d j = Some v \<longrightarrow> m \<le> v)
     \<and> (\<forall>j<k. \<forall>v. d j = Some v \<longrightarrow> m < v)"

text \<open>
  The outcome of scanning \<open>n\<close> candidates when the best difference before the scan is
  \<open>b0\<close>: either no kept candidate is below \<open>b0\<close>, and then the best difference stays
  \<open>b0\<close> and the winning offset is the initial 0; or the winner is the first best candidate
  \<open>k\<close>, its difference is below \<open>b0\<close>, and the winning offset is \<open>k\<close> steps.
\<close>

definition scan_outcome :: "(nat \<Rightarrow> real option) \<Rightarrow> nat \<Rightarrow> real option \<Rightarrow> real
    \<Rightarrow> real option \<Rightarrow> real \<Rightarrow> bool" where
  "scan_outcome d n b0 step best off \<longleftrightarrow>
     (best = b0 \<and> off = 0 \<and> (\<forall>j<n. \<forall>v. d j = Some v \<longrightarrow> \<not> lt_best v b0))
     \<or> (\<exists>k m. first_best d n k m \<and> lt_best m b0 \<and> best = Some m \<and> off = real k * step)"

section \<open>Ground raster providers\<close>

datatype provider = RemoteService | LocalCOG | TileIndex

text \<open>
  The tests on \<open>str_input_cog_ground_dem\<close> that choose the provider. Python's \<open>s[:-3]\<close> is
  \<open>s\<close> without its last three characters, and the empty string when \<open>s\<close> has fewer than
  three.
\<close>

definition ground_dem_provider :: "string \<Rightarrow> provider" where
  "ground_dem_provider s =
     (if s = ''None'' then RemoteService
      else if take (length s - 3) s = ''tif'' then LocalCOG
      else TileIndex)"

section \<open>Row-level orchestrator\<close>

text \<open>
  What the worker reads from outside: the shapely operations, the smoothing filter, the
  file system and the raster sources. \<open>deck_dem_exists\<close> is \<open>os.path.exists\<close> of the deck
  raster's path, \<open>open_deck_dem\<close> opens and reprojects it, \<open>usgs_fetch\<close> and \<open>cog_fetch\<close>
  are the request or read and the reprojection inside the two providers, \<open>rtree_hits\<close>
  gives the paths of the tiles that meet the buffered line, \<open>open_tile\<close> opens and
  reprojects one tile, \<open>merge_arrays\<close> merges and reprojects. Each operation that can
  raise returns a sum.
\<close>

record io_env =
  env_shapely :: shapely
  env_savgol :: savgol
  deck_dem_exists :: "mjr_axis_row \<Rightarrow> bool"
  open_deck_dem :: "mjr_axis_row \<Rightarrow> error + raster"
  usgs_fetch :: "mjr_axis_row \<Rightarrow> error + raster"
  cog_fetch :: "mjr_axis_row \<Rightarrow> error + raster"
  rtree_hits :: "mjr_axis_row \<Rightarrow> error + string list"
  open_tile :: "string \<Rightarrow> error + raster"
  merge_arrays :: "raster list \<Rightarrow> error + raster"

text \<open>\<open>ground_dem_local_proj * 3.28084\<close> when \<open>b_is_feet\<close>.\<close>

definition to_feet :: "bool \<Rightarrow> raster \<Rightarrow> raster" where
  "to_feet b_is_feet dem =
     (if b_is_feet
      then (\<lambda>u v. (case dem u v of None \<Rightarrow> None | Some h \<Rightarrow> Some (h * 3.28084)))
      else dem)"

definition fn_get_ground_dem_from_usgs_service :: "io_env \<Rightarrow> mjr_axis_row \<Rightarrow> error + raster" where
  "fn_get_ground_dem_from_usgs_service env gdf =
     (case usgs_fetch env gdf of
        Inl err \<Rightarrow> Inl err
      | Inr dem \<Rightarrow> Inr (to_feet (is_feet gdf) dem))"

definition fn_get_ground_dem_from_provided_cog :: "io_env \<Rightarrow> mjr_axis_row \<Rightarrow> error + raster" where
  "fn_get_ground_dem_from_provided_cog env gdf =
     (case cog_fetch env gdf of
        Inl err \<Rightarrow> Inl err
      | Inr dem \<Rightarrow> Inr (to_feet (is_feet gdf) dem))"

text \<open>
  The loop over the intersecting tiles: a tile whose opening raises \<open>RasterioIOError\<close> is
  skipped; any other exception leaves the function.
\<close>

fun open_tiles :: "io_env \<Rightarrow> string list \<Rightarrow> error + raster list" where
  "open_tiles env [] = Inr []"
| "open_tiles env (str_dem_filepath # paths) =
     (case open_tile env str_dem_filepath of
        Inl err \<Rightarrow> (if err = RasterioIOError then open_tiles env paths else Inl err)
      | Inr ground_dem \<Rightarrow>
          (case open_tiles env paths of
             Inl err \<Rightarrow> Inl err
           | Inr list_xar_dem \<Rightarrow> Inr (ground_dem # list_xar_dem)))"

definition fn_get_ground_dem_rtree :: "io_env \<Rightarrow> mjr_axis_row \<Rightarrow> error + raster option" where
  "fn_get_ground_dem_rtree env gdf =
     (case rtree_hits env gdf of
        Inl err \<Rightarrow> Inl err
      | Inr list_intersecting_dem_paths \<Rightarrow>
          (if length list_intersecting_dem_paths > 0 then
             (case open_tiles env list_intersecting_dem_paths of
                Inl err \<Rightarrow> Inl err
              | Inr list_xar_dem \<Rightarrow>
                  (if length list_xar_dem > 0 then
                     (case merge_arrays env list_xar_dem of
                        Inl err \<Rightarrow> Inl err
                      | Inr dem \<Rightarrow> Inr (Some (to_feet (is_feet gdf) dem)))
                   else Inr None))
           else Inr None))"

text \<open>The raster the chosen provider gives; only the tile index can give \<open>None\<close>.\<close>

definition ground_dem_local_proj :: "io_env \<Rightarrow> mjr_axis_row \<Rightarrow> error + raster option" where
  "ground_dem_local_proj env gdf =
     (case ground_dem_provider (cog_ground_dem gdf) of
        RemoteService \<Rightarrow>
          (case fn_get_ground_dem_from_usgs_service env gdf of
             Inl err \<Rightarrow> Inl err
           | Inr dem \<Rightarrow> Inr (Some dem))
      | LocalCOG \<Rightarrow>
          (case fn_get_ground_dem_from_provided_cog env gdf of
             Inl err \<Rightarrow> Inl err
           | Inr dem \<Rightarrow> Inr (Some dem))
      | TileIndex \<Rightarrow> fn_get_ground_dem_rtree env gdf)"

text \<open>
  The row the worker returns: the columns \<open>flt_mjr_axis\<close>, \<open>is_feet\<close> and
  \<open>cog_ground_dem\<close> dropped, and the three lists written by \<open>str(...tolist())\<close> kept as
  lists.
\<close>

record attributed_row =
  out_geometry :: linestring
  out_hull_wkt :: string
  out_avg_width :: real
  out_hull_idx :: int
  out_file_path :: string
  out_sta :: "real list"
  out_ground_elv :: "pyfloat list"
  out_deck_elev :: "pyfloat list"

definition fn_populate_sta_ground_deck_elev :: "io_env \<Rightarrow> mjr_axis_row \<Rightarrow> error + attributed_row option" where
  "fn_populate_sta_ground_deck_elev env gdf_singlerow =
     (case fn_center_mjr_axis_on_hull (env_shapely env) gdf_singlerow of
        Inl err \<Rightarrow> Inl err
      | Inr gdf \<Rightarrow>
          (if deck_dem_exists env gdf then
             (case open_deck_dem env gdf of
                Inl err \<Rightarrow> Inl err
              | Inr deck_dem_local_proj \<Rightarrow>
                  (case ground_dem_local_proj env gdf of
                     Inl err \<Rightarrow> Inl err
                   | Inr None \<Rightarrow> Inr None
                   | Inr (Some ground_dem) \<Rightarrow>
                       (case fn_get_profile_gdf_on_major_axis_from_dems (geometry gdf)
                               ground_dem deck_dem_local_proj of
                          Inl err \<Rightarrow> Inl err
                        | Inr profile \<Rightarrow>
                            (let df_smooth_ground_and_deck =
                                   map round_xs_row
                                     (fn_get_smooth_deck_and_ground_profile (env_savgol env) profile)
                             in Inr (Some
                                  \<lparr>out_geometry = geometry gdf,
                                   out_hull_wkt = hull_wkt gdf,
                                   out_avg_width = avg_width gdf,
                                   out_hull_idx = hull_idx gdf,
                                   out_file_path = file_path gdf,
                                   out_sta = map sta df_smooth_ground_and_deck,
                                   out_ground_elv = map ground_elev df_smooth_ground_and_deck,
                                   out_deck_elev =
                                     map max_elev_road_deck df_smooth_ground_and_deck\<rparr>)))))
           else Inr None))"

subsection \<open>The caller: \<open>pool.imap\<close> and the filter of \<open>None\<close>\<close>

text \<open>
  \<open>list(pool.imap(f, rows))\<close> gives the results in order; an exception raised by a worker
  is raised again in the caller when its result is reached.
\<close>

fun imap_list :: "('a \<Rightarrow> error + 'b) \<Rightarrow> 'a list \<Rightarrow> error + 'b list" where
  "imap_list f [] = Inr []"
| "imap_list f (r # rs) =
     (case f r of
        Inl err \<Rightarrow> Inl err
      | Inr v \<Rightarrow> (case imap_list f rs of Inl err \<Rightarrow> Inl err | Inr vs \<Rightarrow> Inr (v # vs)))"

text \<open>\<open>[item for item in list_gdfs if item is not None]\<close>\<close>

fun drop_none :: "'a option list \<Rightarrow> 'a list" where
  "drop_none [] = []"
| "drop_none (None # xs) = drop_none xs"
| "drop_none (Some v # xs) = v # drop_none xs"

definition profile_batch :: "io_env \<Rightarrow> mjr_axis_row list \<Rightarrow> error + attributed_row list" where
  "profile_batch env list_of_single_row_gdfs =
     (case imap_list (fn_populate_sta_ground_deck_elev env) list_of_single_row_gdfs of
        Inl err \<Rightarrow> Inl err
      | Inr list_gdfs \<Rightarrow> Inr (drop_none list_gdfs))"

section \<open>Concrete inputs\<close>

text \<open>
  shapely on horizontal lines and axis-parallel rectangles, for evaluating the functions
  at concrete inputs: the left of a line that runs in the direction of growing \<open>x\<close> is the
  side of growing \<open>y\<close>; a horizontal line that crosses the whole rectangle strictly
  between its lower and upper edge splits it into the part below and the part above, and
  any other horizontal line leaves it in one piece; the area is the shoelace formula.
\<close>

definition shoelace_area :: "polygon \<Rightarrow> real" where
  "shoelace_area pg =
     \<bar>sum_list (map2 (\<lambda>p q. fst p * snd q - fst q * snd p) pg (tl pg @ [hd pg]))\<bar> / 2"

definition rect_parallel_offset :: "linestring \<Rightarrow> real \<Rightarrow> side \<Rightarrow> error + linestring" where
  "rect_parallel_offset line d sd =
     Inr (map (\<lambda>p. (fst p, (case sd of LeftSide \<Rightarrow> snd p + d | RightSide \<Rightarrow> snd p - d))) line)"

definition rect_split :: "polygon \<Rightarrow> linestring \<Rightarrow> error + polygon list" where
  "rect_split pg line =
     (case (pg, line) of
        ([(x0, y0), (x1, y0'), (x1', y1), (x0', y1')], [(a, c), (b, c')]) \<Rightarrow>
          (if c = c' \<and> y0 < c \<and> c < y1 \<and> a \<le> x0 \<and> x1 \<le> b
           then Inr [[(x0, y0), (x1, y0), (x1, c), (x0, c)], [(x0, c), (x1, c), (x1, y1), (x0, y1)]]
           else Inr [pg])
      | _ \<Rightarrow> Inl ValueError)"

definition rect_wkt_loads :: "string \<Rightarrow> error + polygon" where
  "rect_wkt_loads s =
     (if s = ''POLYGON ((0 -1, 10 -1, 10 3, 0 3, 0 -1))''
      then Inr [(0, -1), (10, -1), (10, 3), (0, 3)]
      else if s = ''POINT (0 0)'' then Inr [(0, 0)]
      else Inl ValueError)"

definition rect_shapely :: shapely where
  "rect_shapely =
     \<lparr>shp_wkt_loads = rect_wkt_loads, shp_parallel_offset = rect_parallel_offset,
      shp_split = rect_split, shp_area = shoelace_area\<rparr>"

text \<open>
  A major axis along \<open>y = 0\<close> through a hull \<open>[0, 10] \<times> [-1, 3]\<close> of width 4, whose middle
  line is \<open>y = 1\<close>; and the same row with a point for a hull, which \<open>split\<close> refuses.
\<close>

definition demo_row :: mjr_axis_row where
  "demo_row =
     \<lparr>geometry = [(-1, 0), (11, 0)],
      hull_wkt = ''POLYGON ((0 -1, 10 -1, 10 3, 0 3, 0 -1))'',
      avg_width = 4, flt_mjr_axis = 50, is_feet = False, cog_ground_dem = ''None'',
      hull_idx = 0, file_path = ''aoi/07_major_axis_names/flip_mjr_axis_w_name_ln.shp''\<rparr>"

definition point_hull_row :: mjr_axis_row where
  "point_hull_row = demo_row\<lparr>hull_wkt := ''POINT (0 0)''\<rparr>"

text \<open>A profile row at station \<open>s\<close> with the given ground and deck elevations.\<close>

definition mk_row :: "real \<Rightarrow> pyfloat \<Rightarrow> pyfloat \<Rightarrow> prow" where
  "mk_row s g d = \<lparr>col_x = s, col_y = 0, h_distance = s, elev_grnd = g, elev_deck = d\<rparr>"

text \<open>
  A filter that checks its arguments as scipy's does (the polynomial order must be less
  than the window length, and the window must fit in the series) before it computes the
  smoothed series with \<open>core\<close>.
\<close>

definition checked_savgol :: "(real list \<Rightarrow> nat \<Rightarrow> nat \<Rightarrow> real list) \<Rightarrow> savgol" where
  "checked_savgol core ys w p =
     (if p < w \<and> w \<le> length ys then Inr (core ys w p) else Inl ValueError)"

text \<open>
  A machine with the deck raster at 110 everywhere, no answer from the remote service, no
  COG file, and a tile \<open>bad.img\<close> that cannot be read: the index \<open>tiles_ok\<close> finds it and
  a good tile with ground at 100, the index \<open>tiles_bad\<close> finds it alone, any other index
  finds nothing.
\<close>

definition offline_env :: io_env where
  "offline_env =
     \<lparr>env_shapely = rect_shapely, env_savgol = checked_savgol (\<lambda>ys w p. ys),
      deck_dem_exists = (\<lambda>gdf. True),
      open_deck_dem = (\<lambda>gdf. Inr (\<lambda>u v. Some 110)),
      usgs_fetch = (\<lambda>gdf. Inl URLError),
      cog_fetch = (\<lambda>gdf. Inl RasterioIOError),
      rtree_hits = (\<lambda>gdf. if cog_ground_dem gdf = ''tiles_ok'' then Inr [''bad.img'', ''good.img'']
                           else if cog_ground_dem gdf = ''tiles_bad'' then Inr [''bad.img'']
                           else Inr []),
      open_tile = (\<lambda>path. if path = ''good.img'' then Inr (\<lambda>u v. Some 100)
                           else Inl RasterioIOError),
      merge_arrays = (\<lambda>dems. Inr (hd dems))\<rparr>"

text \<open>The row \<open>demo_row\<close> with the ground raster configured as the tile index \<open>s\<close>.\<close>

definition tiles_row :: "string \<Rightarrow> mjr_axis_row" where
  "tiles_row s = demo_row\<lparr>cog_ground_dem := s\<rparr>"



section \<open>Invariants of the offset search\<close>

text \<open>The split kept in \<open>split_polygons\<close> has been considered: it is no improvement.\<close>

definition settled :: "shapely \<Rightarrow> search_state \<Rightarrow> bool" where
  "settled S st \<longleftrightarrow>
     (case split_polygons st of
        None \<Rightarrow> True
      | Some g \<Rightarrow>
          length g \<noteq> 2
          \<or> \<not> lt_best \<bar>shp_area S (g ! 0) - shp_area S (g ! 1)\<bar> (flt_best_difference st))"

section \<open>Properties\<close>

lemma py_ne_conv: "py_ne a b \<longleftrightarrow> (\<forall>v. a = Some v \<longrightarrow> b \<noteq> Some v)"
  by (auto simp: py_ne_def split: option.splits)

lemma list_ind_vals_Nil_iff:
  "list_ind_vals gdf = [] \<longleftrightarrow> (\<forall>r \<in> set gdf. \<not> py_ne (elev_grnd r) (elev_deck r))"
  unfolding list_ind_vals_def filter_empty_conv
  by (metis atLeastLessThan_iff in_set_conv_nth set_upt zero_le)

lemma fix_IndexError_iff:
  "fn_fix_ground_spikes gdf = Inl IndexError \<longleftrightarrow> list_ind_vals gdf = []"
  by (simp add: fn_fix_ground_spikes_def split: list.splits)

lemma fix_returns_iff:
  "(\<exists>out. fn_fix_ground_spikes gdf = Inr out) \<longleftrightarrow> list_ind_vals gdf \<noteq> []"
  by (simp add: fn_fix_ground_spikes_def split: list.splits)

subsection \<open>C10: the spike repair raises on a profile with no on-deck station\<close>

text \<open>
  Claim C10. \<open>fn_fix_ground_spikes\<close> raises \<open>IndexError\<close> exactly when every station has
  a deck elevation equal to its ground elevation (both valid: pandas counts a NaN as
  different from everything), because \<open>list_ind_vals[0]\<close> is then read from an empty
  list; and it returns a profile exactly when at least one station differs.
\<close>

theorem fix_ground_spikes_partial:
  "(fn_fix_ground_spikes gdf = Inl IndexError \<longleftrightarrow>
      (\<forall>r \<in> set gdf. \<exists>v. elev_grnd r = Some v \<and> elev_deck r = Some v))
   \<and> ((\<exists>out. fn_fix_ground_spikes gdf = Inr out) \<longleftrightarrow>
      (\<exists>r \<in> set gdf. py_ne (elev_grnd r) (elev_deck r)))"
  unfolding fix_IndexError_iff fix_returns_iff list_ind_vals_Nil_iff
  by (simp add: py_ne_conv)

theorem fix_ground_spikes_partial_witness:
  "fn_fix_ground_spikes [mk_row 0 (Some 100) (Some 100), mk_row 1 (Some 100) (Some 100)]
     = Inl IndexError
   \<and> (\<nexists>out. fn_fix_ground_spikes
         [mk_row 0 (Some 100) (Some 100), mk_row 1 (Some 100) (Some 100)] = Inr out)
   \<and> (\<exists>out. fn_fix_ground_spikes
         [mk_row 0 (Some 100) (Some 100), mk_row 1 (Some 100) (Some 110)] = Inr out)"
  using fix_ground_spikes_partial [of "[mk_row 0 (Some 100) (Some 100), mk_row 1 (Some 100) (Some 100)]"]
    fix_ground_spikes_partial [of "[mk_row 0 (Some 100) (Some 100), mk_row 1 (Some 100) (Some 110)]"]
  by (simp add: mk_row_def py_ne_def)

subsection \<open>C9: the provider is chosen by exact string tests\<close>

lemma cog_shape:
  "take (length s - 3) s = ''tif'' \<longleftrightarrow> (\<exists>a b c. s = ''tif'' @ [a, b, c])"
proof
  assume h: "take (length s - 3) s = ''tif''"
  then have "length (take (length s - 3) s) = 3" by simp
  then have l: "length s = 6" by simp
  then obtain a b c d e f where s: "s = [a, b, c, d, e, f]"
    by (auto simp: length_Suc_conv eval_nat_numeral)
  with h show "\<exists>a b c. s = ''tif'' @ [a, b, c]" by simp
next
  assume "\<exists>a b c. s = ''tif'' @ [a, b, c]"
  then show "take (length s - 3) s = ''tif''" by auto
qed

text \<open>
  Claim C9. The remote service is used exactly for the string \<open>None\<close>; the local COG
  exactly for a string that is \<open>tif\<close> once its last three characters are removed, that
  is \<open>tif\<close> followed by three characters; every other string goes to the tile index,
  and so does every path that ends in \<open>.tif\<close>. The orchestrator calls the provider so
  chosen.
\<close>

theorem provider_dispatch:
  "(ground_dem_provider s = RemoteService \<longleftrightarrow> s = ''None'')
   \<and> (ground_dem_provider s = LocalCOG \<longleftrightarrow> take (length s - 3) s = ''tif'')
   \<and> (ground_dem_provider s = LocalCOG \<longleftrightarrow> (\<exists>a b c. s = ''tif'' @ [a, b, c]))
   \<and> (ground_dem_provider s = TileIndex \<longleftrightarrow> s \<noteq> ''None'' \<and> take (length s - 3) s \<noteq> ''tif'')
   \<and> ground_dem_provider (path @ ''.tif'') = TileIndex
   \<and> (cog_ground_dem gdf = s \<longrightarrow>
        ground_dem_local_proj env gdf =
          (if s = ''None'' then map_sum id Some (fn_get_ground_dem_from_usgs_service env gdf)
           else if take (length s - 3) s = ''tif''
             then map_sum id Some (fn_get_ground_dem_from_provided_cog env gdf)
           else fn_get_ground_dem_rtree env gdf))"
proof -
  have a: "ground_dem_provider s = LocalCOG \<longleftrightarrow> take (length s - 3) s = ''tif''"
    by (auto simp: ground_dem_provider_def)
  have b: "ground_dem_provider (path @ ''.tif'') = TileIndex"
    by (simp add: ground_dem_provider_def)
  have c: "cog_ground_dem gdf = s \<longrightarrow>
        ground_dem_local_proj env gdf =
          (if s = ''None'' then map_sum id Some (fn_get_ground_dem_from_usgs_service env gdf)
           else if take (length s - 3) s = ''tif''
             then map_sum id Some (fn_get_ground_dem_from_provided_cog env gdf)
           else fn_get_ground_dem_rtree env gdf)"
    by (auto simp: ground_dem_local_proj_def ground_dem_provider_def split: sum.splits)
  show ?thesis
    using a b c by (auto simp: ground_dem_provider_def cog_shape)
qed

theorem provider_dispatch_witness:
  "ground_dem_provider ''None'' = RemoteService
   \<and> ground_dem_provider ''tifabc'' = LocalCOG
   \<and> ground_dem_provider ''/data/dem_merge.tif'' = TileIndex
   \<and> ground_dem_provider ''dem.tif'' = TileIndex
   \<and> ground_dem_local_proj offline_env demo_row
       = map_sum id Some (fn_get_ground_dem_from_usgs_service offline_env demo_row)"
  using provider_dispatch [of "''None''" "''dem''" demo_row offline_env]
    provider_dispatch [of "''tifabc''" "''/data/dem_merge''" demo_row offline_env]
    provider_dispatch [of "''/data/dem_merge.tif''" "''dem''" demo_row offline_env]
  by (simp add: demo_row_def)


subsection \<open>The offset search\<close>

lemma offset_loop_numeral:
  "offset_loop S l p sd step (numeral k) st =
     (case shp_parallel_offset S l (current_value st) sd of
        Inl err \<Rightarrow> Inl err
      | Inr shp_offset_line \<Rightarrow>
          (case (case shp_split S p shp_offset_line of
                   Inl err \<Rightarrow> split_polygons st
                 | Inr geoms \<Rightarrow> Some geoms) of
             None \<Rightarrow> Inl UnboundLocalError
           | Some geoms \<Rightarrow>
               (let st' = consider_split S geoms st
                in offset_loop S l p sd step (pred_numeral k)
                     (st'\<lparr>current_value := current_value st' + step\<rparr>))))"
  by (simp add: numeral_eq_Suc)

lemmas rect_eval = offset_loop_numeral demo_row_def rect_shapely_def
  rect_wkt_loads_def rect_split_def rect_parallel_offset_def shoelace_area_def
  consider_split_def lt_best_def

lemma demo_center_search:
  "center_search rect_shapely demo_row =
     Inr \<lparr>flt_best_offset_left = 1, flt_best_offset_right = 0,
          str_side = LeftSide, flt_max_value = 1, shp_line_offset = [(-1, 1), (11, 1)]\<rparr>"
  by (simp add: center_search_def num_iterations_def rect_eval)

lemma consider_split_current [simp]:
  "current_value (consider_split S geoms st) = current_value st"
  by (simp add: consider_split_def Let_def)

lemma consider_split_polygons [simp]:
  "split_polygons (consider_split S geoms st) = Some geoms"
  by (simp add: consider_split_def Let_def)

text \<open>
  A split that raises after an earlier one has been read leaves the variables of the
  search as they were: the stale \<open>split_polygons\<close> is considered again and is no
  improvement.
\<close>

lemma consider_split_settled: "settled S (consider_split S geoms st)"
  by (simp add: settled_def consider_split_def Let_def lt_best_def)

lemma stale_split_no_effect:
  "settled S st \<Longrightarrow> split_polygons st = Some g \<Longrightarrow> consider_split S g st = st"
  by (auto simp: settled_def consider_split_def Let_def)



text \<open>
  The loop computes the scan of the specification: a pass whose split raises reads the
  stale \<open>split_polygons\<close> again, which changes nothing, and a pass whose split has another
  number of pieces than two changes nothing but \<open>split_polygons\<close>.
\<close>

lemma scan_outcome_0: "scan_outcome d 0 b0 step b0 0"
  by (simp add: scan_outcome_def)

lemma scan_outcome_skip:
  assumes "scan_outcome d j b0 step best off" "d j = None"
  shows "scan_outcome d (Suc j) b0 step best off"
  using assms unfolding scan_outcome_def first_best_def
  by (auto simp: less_Suc_eq)

lemma scan_outcome_keep:
  assumes "scan_outcome d j b0 step best off" "d j = Some v" "\<not> lt_best v best"
  shows "scan_outcome d (Suc j) b0 step best off"
  using assms unfolding scan_outcome_def first_best_def
  by (auto simp: less_Suc_eq lt_best_def split: option.splits)

lemma scan_outcome_improve:
  assumes "scan_outcome d j b0 step best off" "d j = Some v" "lt_best v best"
  shows "scan_outcome d (Suc j) b0 step (Some v) (real j * step)"
proof -
  from assms(1) consider
    (a) "best = b0" "\<forall>i<j. \<forall>u. d i = Some u \<longrightarrow> \<not> lt_best u b0"
  | (b) k m where "first_best d j k m" "lt_best m b0" "best = Some m"
    unfolding scan_outcome_def by blast
  then have "first_best d (Suc j) j v \<and> lt_best v b0"
  proof cases
    case a
    with assms(2,3) show ?thesis
      unfolding first_best_def
      by (auto simp: less_Suc_eq lt_best_def split: option.splits)
  next
    case b
    with assms(2,3) show ?thesis
      unfolding first_best_def
      by (force simp: less_Suc_eq lt_best_def split: option.splits)
  qed
  then show ?thesis unfolding scan_outcome_def by blast
qed

lemma settled_current [simp]: "settled S (st\<lparr>current_value := c\<rparr>) = settled S st"
  by (simp add: settled_def split: option.splits)

lemma consider_split_outcome:
  assumes "scan_outcome d j b0 step (flt_best_difference st) (flt_best_offset st)"
    and "current_value st = real j * step"
    and "d j = (if length geoms = 2
                then Some \<bar>shp_area S (geoms ! 0) - shp_area S (geoms ! 1)\<bar> else None)"
  shows "scan_outcome d (Suc j) b0 step
           (flt_best_difference (consider_split S geoms st))
           (flt_best_offset (consider_split S geoms st))"
proof (cases "length geoms = 2")
  case False
  with assms(3) have "d j = None" by simp
  from scan_outcome_skip [OF assms(1) this] False show ?thesis
    by (simp add: consider_split_def)
next
  case True
  let ?v = "\<bar>shp_area S (geoms ! 0) - shp_area S (geoms ! 1)\<bar>"
  from True assms(3) have dj: "d j = Some ?v" by simp
  show ?thesis
  proof (cases "lt_best ?v (flt_best_difference st)")
    case True
    from scan_outcome_improve [OF assms(1) dj True] \<open>length geoms = 2\<close> True assms(2)
    show ?thesis by (simp add: consider_split_def Let_def)
  next
    case False
    from scan_outcome_keep [OF assms(1) dj False] \<open>length geoms = 2\<close> False
    show ?thesis by (simp add: consider_split_def Let_def)
  qed
qed

lemma offset_loop_scan:
  assumes "offset_loop S l pg sd step n st = Inr st'"
    and "current_value st = real j * step"
    and "settled S st"
    and "scan_outcome (\<lambda>k. candidate_difference S l pg sd (real k * step)) j b0 step
           (flt_best_difference st) (flt_best_offset st)"
  shows "scan_outcome (\<lambda>k. candidate_difference S l pg sd (real k * step)) (j + n) b0 step
           (flt_best_difference st') (flt_best_offset st')
         \<and> settled S st' \<and> (0 < n \<longrightarrow> split_polygons st' \<noteq> None)"
  using assms
proof (induction n arbitrary: st j)
  case 0
  then show ?case by simp
next
  case (Suc n)
  let ?d = "\<lambda>k. candidate_difference S l pg sd (real k * step)"
  from Suc.prems(1) obtain line where
    line: "shp_parallel_offset S l (current_value st) sd = Inr line"
    by (auto split: sum.splits)
  from Suc.prems(1) line obtain geoms where
    geoms: "(case shp_split S pg line of Inl err \<Rightarrow> split_polygons st | Inr g \<Rightarrow> Some g) = Some geoms"
    and rec: "offset_loop S l pg sd step n
            ((consider_split S geoms st)\<lparr>current_value := current_value st + step\<rparr>) = Inr st'"
    by (auto simp: Let_def split: option.splits)
  let ?st1 = "(consider_split S geoms st)\<lparr>current_value := current_value st + step\<rparr>"
  have cv: "current_value ?st1 = real (Suc j) * step"
    using Suc.prems(2) by (simp add: algebra_simps)
  have st: "settled S ?st1" by (simp add: consider_split_settled)
  have sc: "scan_outcome ?d (Suc j) b0 step (flt_best_difference ?st1) (flt_best_offset ?st1)"
  proof (cases "shp_split S pg line")
    case (Inl err)
    with geoms have stale: "split_polygons st = Some geoms" by simp
    from Inl line Suc.prems(2) have "?d j = None"
      by (simp add: candidate_difference_def)
    from scan_outcome_skip [OF Suc.prems(4) this]
      stale_split_no_effect [OF Suc.prems(3) stale]
    show ?thesis by simp
  next
    case (Inr g)
    with geoms have g: "g = geoms" by simp
    from Inr g line Suc.prems(2)
    have "?d j = (if length geoms = 2
                then Some \<bar>shp_area S (geoms ! 0) - shp_area S (geoms ! 1)\<bar> else None)"
      by (simp add: candidate_difference_def)
    from consider_split_outcome [OF Suc.prems(4) Suc.prems(2) this]
    show ?thesis by simp
  qed
  from Suc.IH [OF rec cv st sc] have
    "scan_outcome ?d (Suc j + n) b0 step (flt_best_difference st') (flt_best_offset st')"
    "settled S st'" "0 < n \<longrightarrow> split_polygons st' \<noteq> None"
    by auto
  moreover have "split_polygons st' \<noteq> None"
  proof (cases n)
    case 0
    with rec show ?thesis by auto
  next
    case (Suc m)
    with \<open>0 < n \<longrightarrow> split_polygons st' \<noteq> None\<close> show ?thesis by simp
  qed
  ultimately show ?case by simp
qed

lemma scan_outcome_unique:
  assumes "scan_outcome d n b0 step best off" "scan_outcome d n b0 step best' off'"
  shows "best' = best \<and> off' = off"
proof -
  have excl: False
    if a: "\<forall>j<n. \<forall>v. d j = Some v \<longrightarrow> \<not> lt_best v b0"
      and b: "first_best d n k m" "lt_best m b0" for k m
    using a b unfolding first_best_def by blast
  have same: "k' = k \<and> m' = m"
    if "first_best d n k m" "first_best d n k' m'" for k k' m m'
  proof -
    from that have km: "k < n" "d k = Some m" "k' < n" "d k' = Some m'"
      and le: "m \<le> m'" "m' \<le> m"
      unfolding first_best_def by auto
    then have m: "m' = m" by simp
    have "\<not> k < k'" using that km m unfolding first_best_def by force
    moreover have "\<not> k' < k" using that km m unfolding first_best_def by force
    ultimately show ?thesis using m by simp
  qed
  from assms show ?thesis
    unfolding scan_outcome_def
    by (elim disjE exE conjE) (use excl same in \<open>blast+\<close>)
qed


lemma scan_outcome_range:
  assumes "scan_outcome d n b0 step best off" "0 < n"
  shows "\<exists>k<n. off = real k * step"
  using assms unfolding scan_outcome_def first_best_def by auto

lemma settled_fields:
  "split_polygons st' = split_polygons st \<Longrightarrow> flt_best_difference st' = flt_best_difference st
   \<Longrightarrow> settled S st' = settled S st"
  by (simp add: settled_def split: option.splits)

lemma center_search_scan:
  assumes "center_search S gdf = Inr loc"
  shows "\<exists>pg bl br. shp_wkt_loads S (hull_wkt gdf) = Inr pg
     \<and> scan_outcome (\<lambda>k. candidate_difference S (geometry gdf) pg LeftSide
                            (real k * (avg_width gdf / 100)))
         100 None (avg_width gdf / 100) bl (flt_best_offset_left loc)
     \<and> scan_outcome (\<lambda>k. candidate_difference S (geometry gdf) pg RightSide
                            (real k * (avg_width gdf / 100)))
         100 bl (avg_width gdf / 100) br (flt_best_offset_right loc)"
proof -
  let ?step = "avg_width gdf / 100"
  let ?st0 = "\<lparr>split_polygons = None, flt_best_difference = None,
                flt_best_offset = 0, current_value = 0\<rparr>"
  from assms obtain pg stl str where
    wkt: "shp_wkt_loads S (hull_wkt gdf) = Inr pg"
    and left: "offset_loop S (geometry gdf) pg LeftSide ?step 100 ?st0 = Inr stl"
    and right: "offset_loop S (geometry gdf) pg RightSide ?step 100
             \<lparr>split_polygons = split_polygons stl, flt_best_difference = flt_best_difference stl,
              flt_best_offset = 0, current_value = 0\<rparr> = Inr str"
    and loc: "flt_best_offset_left loc = flt_best_offset stl"
             "flt_best_offset_right loc = flt_best_offset str"
    by (auto simp: center_search_def Let_def num_iterations_def split: sum.splits)
  have l0: "scan_outcome (\<lambda>k. candidate_difference S (geometry gdf) pg LeftSide (real k * ?step))
              0 None ?step (flt_best_difference ?st0) (flt_best_offset ?st0)"
    by (simp add: scan_outcome_0)
  from offset_loop_scan [OF left _ _ l0]
  have L: "scan_outcome (\<lambda>k. candidate_difference S (geometry gdf) pg LeftSide (real k * ?step))
              100 None ?step (flt_best_difference stl) (flt_best_offset stl)"
    and sl: "settled S stl"
    by (simp_all add: settled_def)
  let ?st1 = "\<lparr>split_polygons = split_polygons stl, flt_best_difference = flt_best_difference stl,
              flt_best_offset = 0, current_value = 0\<rparr>"
  have s1: "settled S ?st1" using sl settled_fields [of ?st1 stl S] by simp
  have r0: "scan_outcome (\<lambda>k. candidate_difference S (geometry gdf) pg RightSide (real k * ?step))
              0 (flt_best_difference stl) ?step (flt_best_difference ?st1) (flt_best_offset ?st1)"
    by (simp add: scan_outcome_0)
  from offset_loop_scan [OF right _ s1 r0]
  have R: "scan_outcome (\<lambda>k. candidate_difference S (geometry gdf) pg RightSide (real k * ?step))
              100 (flt_best_difference stl) ?step (flt_best_difference str) (flt_best_offset str)"
    by simp
  from wkt L R loc show ?thesis by auto
qed

lemma center_search_final:
  assumes "center_search S gdf = Inr loc"
  shows "str_side loc =
        (if flt_best_offset_right loc \<ge> flt_best_offset_left loc then RightSide else LeftSide)
    \<and> flt_max_value loc = max (flt_best_offset_left loc) (flt_best_offset_right loc)
    \<and> shp_parallel_offset S (geometry gdf) (flt_max_value loc) (str_side loc)
        = Inr (shp_line_offset loc)"
  using assms
  by (auto simp: center_search_def Let_def max_def split: sum.splits if_splits)

lemma real_grid_25: "1 = real k * (4 / 100) \<longleftrightarrow> k = 25"
proof -
  have "1 = real k * (4 / 100) \<longleftrightarrow> real k = real 25" by auto
  then show ?thesis by (simp only: of_nat_eq_iff)
qed

subsection \<open>C6: the side and the size of the final offset\<close>

text \<open>
  Claim C6. When the search returns, the winning offset of the left side is the outcome
  of scanning the 100 candidates \<open>k * (avg_width / 100)\<close>, \<open>k = 0, ..., 99\<close>, on the left
  (the first candidate of least area difference among those that split the hull in two,
  or 0 when there is none), and the winning offset of the right side is the outcome of
  scanning the same 100 offsets on the right, where a candidate wins only with a
  difference below the best of the left side. The final line is the parallel offset of
  the input line toward the side with the larger winning offset, the right side on a tie,
  at that offset. The chosen offset lies between 0 and \<open>avg_width\<close>: in
  \<open>[0, avg_width]\<close> for a width that is not negative. Offsets are real numbers here; the
  rounding of the repeated addition \<open>current_value += step\<close> is not modelled.
\<close>

theorem center_side_and_offset:
  assumes "center_search S gdf = Inr loc"
  shows "(\<exists>pg bl br. shp_wkt_loads S (hull_wkt gdf) = Inr pg
       \<and> scan_outcome (\<lambda>k. candidate_difference S (geometry gdf) pg LeftSide
                              (real k * (avg_width gdf / 100)))
           100 None (avg_width gdf / 100) bl (flt_best_offset_left loc)
       \<and> scan_outcome (\<lambda>k. candidate_difference S (geometry gdf) pg RightSide
                              (real k * (avg_width gdf / 100)))
           100 bl (avg_width gdf / 100) br (flt_best_offset_right loc))
    \<and> str_side loc =
        (if flt_best_offset_right loc \<ge> flt_best_offset_left loc then RightSide else LeftSide)
    \<and> flt_max_value loc = max (flt_best_offset_left loc) (flt_best_offset_right loc)
    \<and> shp_parallel_offset S (geometry gdf) (flt_max_value loc) (str_side loc)
        = Inr (shp_line_offset loc)
    \<and> min 0 (avg_width gdf) \<le> flt_max_value loc \<and> flt_max_value loc \<le> max 0 (avg_width gdf)
    \<and> (0 \<le> avg_width gdf \<longrightarrow> 0 \<le> flt_max_value loc \<and> flt_max_value loc \<le> avg_width gdf)"
proof -
  let ?w = "avg_width gdf"
  from center_search_scan [OF assms] obtain pg bl br where
    wkt: "shp_wkt_loads S (hull_wkt gdf) = Inr pg"
    and L: "scan_outcome (\<lambda>k. candidate_difference S (geometry gdf) pg LeftSide
                              (real k * (?w / 100)))
           100 None (?w / 100) bl (flt_best_offset_left loc)"
    and R: "scan_outcome (\<lambda>k. candidate_difference S (geometry gdf) pg RightSide
                              (real k * (?w / 100)))
           100 bl (?w / 100) br (flt_best_offset_right loc)"
    by blast
  from scan_outcome_range [OF L] obtain kl where
    kl: "kl < 100" "flt_best_offset_left loc = real kl * (?w / 100)" by auto
  from scan_outcome_range [OF R] obtain kr where
    kr: "kr < 100" "flt_best_offset_right loc = real kr * (?w / 100)" by auto
  have seg: "min 0 w \<le> real k * (w / 100) \<and> real k * (w / 100) \<le> max 0 w"
    if "k < 100" for k :: nat and w :: real
  proof (cases "0 \<le> w")
    case True
    have "real k \<le> 100" using that by simp
    then have "real k * w \<le> 100 * w" using True by (rule mult_right_mono)
    then show ?thesis using True by simp
  next
    case False
    then have w: "w \<le> 0" by simp
    have "real k \<le> 100" using that by simp
    then have "100 * w \<le> real k * w" using w by (rule mult_right_mono_neg)
    moreover have "real k * w \<le> 0" using w by (simp add: mult_nonneg_nonpos)
    ultimately show ?thesis using w by simp
  qed
  from center_search_final [OF assms] have
    fin: "str_side loc =
        (if flt_best_offset_right loc \<ge> flt_best_offset_left loc then RightSide else LeftSide)"
      "flt_max_value loc = max (flt_best_offset_left loc) (flt_best_offset_right loc)"
      "shp_parallel_offset S (geometry gdf) (flt_max_value loc) (str_side loc)
        = Inr (shp_line_offset loc)"
    by auto
  have sl: "min 0 ?w \<le> flt_best_offset_left loc \<and> flt_best_offset_left loc \<le> max 0 ?w"
    unfolding kl(2) by (rule seg [OF kl(1)])
  have sr: "min 0 ?w \<le> flt_best_offset_right loc \<and> flt_best_offset_right loc \<le> max 0 ?w"
    unfolding kr(2) by (rule seg [OF kr(1)])
  have b: "min 0 ?w \<le> flt_max_value loc \<and> flt_max_value loc \<le> max 0 ?w"
    unfolding fin(2) using sl sr by linarith
  then have b': "0 \<le> ?w \<longrightarrow> 0 \<le> flt_max_value loc \<and> flt_max_value loc \<le> ?w"
    by auto
  from wkt L R fin b b' show ?thesis by blast
qed

theorem center_side_and_offset_witness:
  "center_search rect_shapely demo_row =
     Inr \<lparr>flt_best_offset_left = 1, flt_best_offset_right = 0,
          str_side = LeftSide, flt_max_value = 1, shp_line_offset = [(-1, 1), (11, 1)]\<rparr>
   \<and> first_best (\<lambda>k. candidate_difference rect_shapely [(-1, 0), (11, 0)]
                         [(0, -1), (10, -1), (10, 3), (0, 3)] LeftSide (real k * (4 / 100)))
         100 25 0
   \<and> (\<exists>br. scan_outcome (\<lambda>k. candidate_difference rect_shapely [(-1, 0), (11, 0)]
                         [(0, -1), (10, -1), (10, 3), (0, 3)] RightSide (real k * (4 / 100)))
         100 (Some 0) (4 / 100) br 0)
   \<and> shp_parallel_offset rect_shapely [(-1, 0), (11, 0)] 1 LeftSide = Inr [(-1, 1), (11, 1)]"
proof -
  let ?dl = "\<lambda>k. candidate_difference rect_shapely [(-1, 0), (11, 0)]
                         [(0, -1), (10, -1), (10, 3), (0, 3)] LeftSide (real k * (4 / 100))"
  let ?dr = "\<lambda>k. candidate_difference rect_shapely [(-1, 0), (11, 0)]
                         [(0, -1), (10, -1), (10, 3), (0, 3)] RightSide (real k * (4 / 100))"
  from center_side_and_offset [OF demo_center_search]
  obtain pg bl br where
    wkt: "shp_wkt_loads rect_shapely (hull_wkt demo_row) = Inr pg"
    and L: "scan_outcome (\<lambda>k. candidate_difference rect_shapely (geometry demo_row) pg LeftSide
                              (real k * (avg_width demo_row / 100)))
           100 None (avg_width demo_row / 100) bl 1"
    and R: "scan_outcome (\<lambda>k. candidate_difference rect_shapely (geometry demo_row) pg RightSide
                              (real k * (avg_width demo_row / 100)))
           100 bl (avg_width demo_row / 100) br 0"
    and po: "shp_parallel_offset rect_shapely (geometry demo_row) 1 LeftSide = Inr [(-1, 1), (11, 1)]"
    by auto
  from wkt have pg: "pg = [(0, -1), (10, -1), (10, 3), (0, 3)]"
    by (simp add: rect_shapely_def rect_wkt_loads_def demo_row_def)
  from L have L': "scan_outcome ?dl 100 None (4 / 100) bl 1"
    by (simp add: pg demo_row_def)
  from R have R': "scan_outcome ?dr 100 bl (4 / 100) br 0"
    by (simp add: pg demo_row_def)
  from L' obtain m where fb: "first_best ?dl 100 25 m" and bl: "bl = Some m"
    unfolding scan_outcome_def by (auto simp: real_grid_25)
  have "?dl 25 = Some 0"
    by (simp add: candidate_difference_def rect_shapely_def rect_parallel_offset_def
        rect_split_def shoelace_area_def)
  with fb have m: "m = 0" unfolding first_best_def by simp
  from po have po': "shp_parallel_offset rect_shapely [(-1, 0), (11, 0)] 1 LeftSide
      = Inr [(-1, 1), (11, 1)]"
    by (simp add: demo_row_def)
  from demo_center_search fb R' po' show ?thesis
    unfolding m bl by blast
qed


subsection \<open>C1: the returned row keeps the input line\<close>


text \<open>
  Claim C1 (a defect of the code). On the row \<open>demo_row\<close> the search finds the offset 1
  to the left and builds the centred line \<open>y = 1\<close>, but the row returned is the input
  row, whose geometry is still the line \<open>y = 0\<close>: the assignment goes to the copy that
  \<open>iloc[0]\<close> made.
\<close>

theorem center_returns_uncentered_line:
  "fn_center_mjr_axis_on_hull rect_shapely demo_row = Inr demo_row
   \<and> map_sum id shp_line_offset (center_search rect_shapely demo_row) = Inr [(-1, 1), (11, 1)]
   \<and> geometry demo_row = [(-1, 0), (11, 0)]
   \<and> geometry demo_row \<noteq> [(-1, 1), (11, 1)]"
  by (simp add: fn_center_mjr_axis_on_hull_def demo_center_search) (simp add: demo_row_def)

subsection \<open>C4: failed splits are discarded\<close>

text \<open>
  The first candidate is the line itself, at offset 0 on the left. Were its split to
  raise, \<open>except: pass\<close> would swallow the exception and the next statement would read
  \<open>split_polygons\<close> before any assignment; shapely refuses a hull that is a point in this
  way.
\<close>

lemma first_split_raises:
  assumes "shp_wkt_loads S (hull_wkt gdf) = Inr pg"
    and "shp_parallel_offset S (geometry gdf) 0 LeftSide = Inr l0"
    and "shp_split S pg l0 = Inl err"
  shows "center_search S gdf = Inl UnboundLocalError"
proof -
  have n: "num_iterations = Suc 99" by (simp add: num_iterations_def)
  show ?thesis
    unfolding center_search_def Let_def n
    by (subst offset_loop.simps(2)) (use assms in simp)
qed

lemma point_hull_raises:
  "fn_center_mjr_axis_on_hull rect_shapely point_hull_row = Inl UnboundLocalError"
  by (simp add: fn_center_mjr_axis_on_hull_def center_search_def num_iterations_def
      point_hull_row_def rect_eval)






subsection \<open>The profile smoother\<close>




lemma w_deck_fallback:
  "sg (y_deck gdf) (int_window (length (x_deck gdf))) 2 = Inl err \<Longrightarrow> w_deck sg gdf = y_deck gdf"
  by (simp add: w_deck_def)

lemma w_deck_identity: "w_deck (\<lambda>ys w p. Inr ys) gdf = y_deck gdf"
  by (simp add: w_deck_def)

lemma smooth_fallback:
  "sg (y_deck gdf) (int_window (length (x_deck gdf))) 2 = Inl err \<Longrightarrow>
   fn_get_smooth_deck_and_ground_profile sg gdf
     = fn_get_smooth_deck_and_ground_profile (\<lambda>ys w p. Inr ys) gdf"
  by (simp add: fn_get_smooth_deck_and_ground_profile_def w_deck_fallback w_deck_identity)

text \<open>Fewer than eight complete rows give the window 1, which the filter refuses.\<close>

lemma degenerate_window:
  "length (dropna gdf) < 8 \<Longrightarrow>
   checked_savgol core (y_deck gdf) (int_window (length (x_deck gdf))) 2 = Inl ValueError"
  by (auto simp: checked_savgol_def int_window_def x_deck_def Let_def)

lemma filter_station_distinct:
  "distinct (map f xs) \<Longrightarrow> r \<in> set xs \<Longrightarrow> filter (\<lambda>r'. f r' = f r) xs = [r]"
proof (induction xs)
  case Nil
  then show ?case by simp
next
  case (Cons a xs)
  show ?case
  proof (cases "a = r")
    case True
    with Cons.prems(1) have "f r \<notin> f ` set xs" by simp
    then have "filter (\<lambda>r'. f r' = f r) xs = []"
      unfolding filter_empty_conv by (metis imageI)
    with True show ?thesis by simp
  next
    case False
    with Cons.prems have "r \<in> set xs" "f a \<noteq> f r" by auto
    with Cons.IH Cons.prems(1) show ?thesis by simp
  qed
qed

lemma matches_unsmoothed:
  assumes "distinct (map h_distance gdf)" "r \<in> set gdf"
  shows "filter (\<lambda>(s', d). s' = h_distance r) (zip (x_deck gdf) (y_deck gdf))
     = (if isnan (elev_grnd r) \<or> isnan (elev_deck r) then []
        else [(h_distance r, the (elev_deck r))])"
proof -
  have z: "zip (x_deck gdf) (y_deck gdf)
      = map (\<lambda>r. (h_distance r, the (elev_deck r))) (dropna gdf)"
    by (simp add: x_deck_def y_deck_def zip_map_map zip_same_conv_map)
  have "filter (\<lambda>(s', d). s' = h_distance r) (zip (x_deck gdf) (y_deck gdf))
      = map (\<lambda>r. (h_distance r, the (elev_deck r)))
          (filter (\<lambda>r'. \<not> isnan (elev_grnd r') \<and> \<not> isnan (elev_deck r'))
             (filter (\<lambda>r'. h_distance r' = h_distance r) gdf))"
    unfolding z dropna_def by (simp add: filter_map o_def conj_commute)
  also have "filter (\<lambda>r'. h_distance r' = h_distance r) gdf = [r]"
    by (rule filter_station_distinct [OF assms])
  finally show ?thesis by auto
qed

lemma smooth_identity_rows:
  assumes "distinct (map h_distance gdf)"
  shows "fn_get_smooth_deck_and_ground_profile (\<lambda>ys w p. Inr ys) gdf = map raw_xs_row gdf"
proof -
  have "concat (map (\<lambda>(s, g).
        (case filter (\<lambda>(s', d). s' = s) (zip (x_deck gdf) (y_deck gdf)) of
           [] \<Rightarrow> [(s, g, None)]
         | m # ms \<Rightarrow> map (\<lambda>(s', d). (s, g, Some d)) (m # ms)))
        (map (\<lambda>r. (h_distance r, elev_grnd r)) xs))
      = map (\<lambda>r. (h_distance r, elev_grnd r,
            if isnan (elev_grnd r) \<or> isnan (elev_deck r) then None else elev_deck r)) xs"
    if "set xs \<subseteq> set gdf" for xs
    using that
  proof (induction xs)
    case Nil
    then show ?case by simp
  next
    case (Cons a xs)
    then have a: "a \<in> set gdf" by simp
    show ?case
      using Cons by (auto simp: matches_unsmoothed [OF assms a] isnan_def)
  qed
  from this [of gdf] show ?thesis
    by (simp add: fn_get_smooth_deck_and_ground_profile_def merge_left_def w_deck_identity
        zip_map_map zip_same_conv_map raw_xs_row_def Let_def o_def)
qed

text \<open>Whether the worker raises does not depend on the filter.\<close>

lemma populate_unfold:
  "fn_populate_sta_ground_deck_elev env gdf_singlerow = Inl err \<longleftrightarrow>
     (case fn_center_mjr_axis_on_hull (env_shapely env) gdf_singlerow of
        Inl e \<Rightarrow> e = err
      | Inr gdf \<Rightarrow>
          deck_dem_exists env gdf \<and>
          (case open_deck_dem env gdf of
             Inl e \<Rightarrow> e = err
           | Inr deck \<Rightarrow>
               (case ground_dem_local_proj env gdf of
                  Inl e \<Rightarrow> e = err
                | Inr None \<Rightarrow> False
                | Inr (Some ground) \<Rightarrow>
                    fn_get_profile_gdf_on_major_axis_from_dems (geometry gdf) ground deck = Inl err)))"
  by (simp add: fn_populate_sta_ground_deck_elev_def Let_def split: sum.splits option.splits)

lemma open_tiles_savgol [simp]:
  "open_tiles (env\<lparr>env_savgol := sg\<rparr>) paths = open_tiles env paths"
  by (induction paths) (auto split: sum.splits)

lemma usgs_savgol [simp]:
  "fn_get_ground_dem_from_usgs_service (env\<lparr>env_savgol := sg\<rparr>) gdf
     = fn_get_ground_dem_from_usgs_service env gdf"
  by (simp add: fn_get_ground_dem_from_usgs_service_def)

lemma cog_savgol [simp]:
  "fn_get_ground_dem_from_provided_cog (env\<lparr>env_savgol := sg\<rparr>) gdf
     = fn_get_ground_dem_from_provided_cog env gdf"
  by (simp add: fn_get_ground_dem_from_provided_cog_def)

lemma rtree_savgol [simp]:
  "fn_get_ground_dem_rtree (env\<lparr>env_savgol := sg\<rparr>) gdf = fn_get_ground_dem_rtree env gdf"
  by (simp add: fn_get_ground_dem_rtree_def cong: sum.case_cong if_cong)

lemma ground_dem_savgol [simp]:
  "ground_dem_local_proj (env\<lparr>env_savgol := sg\<rparr>) gdf = ground_dem_local_proj env gdf"
  by (simp add: ground_dem_local_proj_def split: provider.splits)

lemma populate_error_filter_free:
  "fn_populate_sta_ground_deck_elev (env\<lparr>env_savgol := sg\<rparr>) gdf = Inl err
   \<longleftrightarrow> fn_populate_sta_ground_deck_elev (env\<lparr>env_savgol := sg'\<rparr>) gdf = Inl err"
  by (simp add: populate_unfold cong: sum.case_cong)

subsection \<open>C7: the smoother falls back to the unsmoothed deck series\<close>

text \<open>
  Claim C7. The smoother has a result for every profile and every behaviour of the
  filter: the only call that can raise is the filter, inside \<open>try\<close> with a bare
  \<open>except\<close>. When the filter raises, the deck series used is the unsmoothed one, so the
  result is the one an identity filter gives; with distinct stations that is, row by
  row, the station, the ground elevation, the row's own deck elevation (for a row with
  no missing value) and their maximum. A profile with fewer than eight rows without a
  missing value gives the window 1, which a filter that checks its arguments refuses,
  and so takes this path. An exception of the filter never leaves the worker.
\<close>

theorem smoother_falls_back:
  "(sg (y_deck gdf) (int_window (length (x_deck gdf))) 2 = Inl err \<longrightarrow>
      w_deck sg gdf = y_deck gdf
      \<and> fn_get_smooth_deck_and_ground_profile sg gdf
          = fn_get_smooth_deck_and_ground_profile (\<lambda>ys w p. Inr ys) gdf
      \<and> (distinct (map h_distance gdf) \<longrightarrow>
           fn_get_smooth_deck_and_ground_profile sg gdf = map raw_xs_row gdf))
   \<and> (length (dropna gdf) < 8 \<longrightarrow>
        fn_get_smooth_deck_and_ground_profile (checked_savgol core) gdf
          = fn_get_smooth_deck_and_ground_profile (\<lambda>ys w p. Inr ys) gdf)
   \<and> (fn_populate_sta_ground_deck_elev (env\<lparr>env_savgol := sg\<rparr>) gdf_singlerow = Inl err'
        \<longleftrightarrow> fn_populate_sta_ground_deck_elev
              (env\<lparr>env_savgol := (\<lambda>ys w p. Inr ys)\<rparr>) gdf_singlerow = Inl err')"
proof -
  have a: "sg (y_deck gdf) (int_window (length (x_deck gdf))) 2 = Inl err \<longrightarrow>
      w_deck sg gdf = y_deck gdf
      \<and> fn_get_smooth_deck_and_ground_profile sg gdf
          = fn_get_smooth_deck_and_ground_profile (\<lambda>ys w p. Inr ys) gdf
      \<and> (distinct (map h_distance gdf) \<longrightarrow>
           fn_get_smooth_deck_and_ground_profile sg gdf = map raw_xs_row gdf)"
    using w_deck_fallback [of sg gdf err] smooth_fallback [of sg gdf err]
      smooth_identity_rows [of gdf] by simp
  have b: "length (dropna gdf) < 8 \<longrightarrow>
        fn_get_smooth_deck_and_ground_profile (checked_savgol core) gdf
          = fn_get_smooth_deck_and_ground_profile (\<lambda>ys w p. Inr ys) gdf"
    using smooth_fallback [of "checked_savgol core" gdf ValueError] degenerate_window [of gdf core]
    by simp
  from a b populate_error_filter_free
    [where env = env and sg = sg and gdf = gdf_singlerow and err = err'
       and sg' = "\<lambda>ys w p. Inr ys"]
  show ?thesis by blast
qed

theorem smoother_falls_back_witness:
  "fn_get_smooth_deck_and_ground_profile (checked_savgol (\<lambda>ys w p. map (\<lambda>v. 0) ys))
      [mk_row 0 (Some 100) (Some 110), mk_row 1 (Some 100) None, mk_row 2 (Some 100) (Some 111)]
    = [\<lparr>sta = 0, ground_elev = Some 100, deck_elev = Some 110, max_elev_road_deck = Some 110\<rparr>,
       \<lparr>sta = 1, ground_elev = Some 100, deck_elev = None, max_elev_road_deck = Some 100\<rparr>,
       \<lparr>sta = 2, ground_elev = Some 100, deck_elev = Some 111, max_elev_road_deck = Some 111\<rparr>]"
proof -
  let ?sg = "checked_savgol (\<lambda>ys w p. map (\<lambda>v. 0) ys)"
  let ?g = "[mk_row 0 (Some 100) (Some 110), mk_row 1 (Some 100) None,
             mk_row 2 (Some 100) (Some 111)]"
  have h: "?sg (y_deck ?g) (int_window (length (x_deck ?g))) 2 = Inl ValueError"
    by (simp add: checked_savgol_def y_deck_def x_deck_def dropna_def isnan_def mk_row_def
        int_window_def)
  have d: "distinct (map h_distance ?g)"
    by (simp add: mk_row_def)
  from smoother_falls_back
    [of ?sg ?g ValueError "\<lambda>ys w p. ys" offline_env demo_row ValueError,
     THEN conjunct1, THEN mp, OF h, THEN conjunct2, THEN conjunct2, THEN mp, OF d]
  have "fn_get_smooth_deck_and_ground_profile ?sg ?g = map raw_xs_row ?g" .
  then show ?thesis
    by (simp add: raw_xs_row_def mk_row_def isnan_def row_max_def Let_def)
qed

subsection \<open>The worker on concrete rows\<close>

lemma fn_distance_horizontal [simp]: "fn_distance x1 x2 y y = \<bar>x1 - x2\<bar>"
  by (simp add: fn_distance_def)

lemma center_search_cog [simp]:
  "center_search S (gdf\<lparr>cog_ground_dem := s\<rparr>) = center_search S gdf"
  by (simp add: center_search_def Let_def cong: sum.case_cong)

lemma demo_dense_sample:
  "dense_sample [(-1, 0), (11, 0)] (\<lambda>u v. Some 100) (\<lambda>u v. Some 110)
     = Inr (map (\<lambda>i. \<lparr>col_x = real i - 1, col_y = 0, h_distance = real i,
                       elev_grnd = Some 100, elev_deck = Some 110\<rparr>) [0 ..< 12])"
  by (simp add: dense_sample_def edges_of_def edge_points_def n_points_of_def sample_rows_def
      sample_row_def point_distance_def Let_def upt_rec [of _ 12] upt_rec [of _ 11]
      upt_rec [of _ "Suc _"])


lemmas upt_eval = upt_rec [of _ 12] upt_rec [of _ 11] upt_rec [of _ "Suc _"] upt_rec [of _ "numeral _"]

lemma demo_profile:
  "fn_get_profile_gdf_on_major_axis_from_dems [(-1, 0), (11, 0)] (\<lambda>u v. Some 100) (\<lambda>u v. Some 110)
     = Inr (map (\<lambda>i. \<lparr>col_x = real i - 1, col_y = 0, h_distance = real i,
                       elev_grnd = Some 100, elev_deck = Some 110\<rparr>) [0 ..< 12])"
  by (simp add: fn_get_profile_gdf_on_major_axis_from_dems_def demo_dense_sample
      fn_fix_ground_spikes_def list_ind_vals_def py_ne_def spike_flags_def assess_of_def
      interpolate_def set_elev_deck_def upt_eval)

lemma demo_smooth:
  "map round_xs_row (fn_get_smooth_deck_and_ground_profile (checked_savgol (\<lambda>ys w p. ys))
     (map (\<lambda>i. \<lparr>col_x = real i - 1, col_y = 0, h_distance = real i,
                       elev_grnd = Some 100, elev_deck = Some 110\<rparr>) [0 ..< 12]))
   = map (\<lambda>i. \<lparr>sta = real i, ground_elev = Some 100, deck_elev = Some 110,
                 max_elev_road_deck = Some 110\<rparr>) [0 ..< 12]"
  by (simp add: fn_get_smooth_deck_and_ground_profile_def merge_left_def x_deck_def y_deck_def
      w_deck_def dropna_def isnan_def int_window_def checked_savgol_def row_max_def
      round_xs_row_def round2_def rint_def py_round2_def Let_def upt_eval)

lemma open_tiles_Nil_iff:
  "open_tiles env paths = Inr [] \<longleftrightarrow> (\<forall>p \<in> set paths. open_tile env p = Inl RasterioIOError)"
  by (induction paths) (auto split: sum.splits)

lemma rtree_None_iff:
  "fn_get_ground_dem_rtree env gdf = Inr None \<longleftrightarrow>
     (\<exists>paths. rtree_hits env gdf = Inr paths
        \<and> (\<forall>p \<in> set paths. open_tile env p = Inl RasterioIOError))"
proof (cases "rtree_hits env gdf")
  case (Inl err)
  then show ?thesis by (simp add: fn_get_ground_dem_rtree_def)
next
  case (Inr paths)
  show ?thesis
  proof (cases "open_tiles env paths")
    case (Inl err)
    with Inr open_tiles_Nil_iff [of env paths] show ?thesis
      by (auto simp: fn_get_ground_dem_rtree_def)
  next
    case r: (Inr dems)
    with Inr open_tiles_Nil_iff [of env paths] show ?thesis
      by (cases dems) (auto simp: fn_get_ground_dem_rtree_def split: sum.splits)
  qed
qed

lemma ground_None_iff:
  "ground_dem_local_proj env gdf = Inr None \<longleftrightarrow>
     ground_dem_provider (cog_ground_dem gdf) = TileIndex
     \<and> (\<exists>paths. rtree_hits env gdf = Inr paths
          \<and> (\<forall>p \<in> set paths. open_tile env p = Inl RasterioIOError))"
  by (cases "ground_dem_provider (cog_ground_dem gdf)")
    (auto simp: ground_dem_local_proj_def rtree_None_iff split: sum.splits)

lemma populate_None:
  assumes "fn_center_mjr_axis_on_hull (env_shapely env) row = Inr gdf"
    and "deck_dem_exists env gdf" "open_deck_dem env gdf = Inr deck"
    and "ground_dem_local_proj env gdf = Inr None"
  shows "fn_populate_sta_ground_deck_elev env row = Inr None"
  using assms by (simp add: fn_populate_sta_ground_deck_elev_def)

lemma populate_no_deck:
  assumes "fn_center_mjr_axis_on_hull (env_shapely env) row = Inr gdf"
    and "\<not> deck_dem_exists env gdf"
  shows "fn_populate_sta_ground_deck_elev env row = Inr None"
  using assms by (simp add: fn_populate_sta_ground_deck_elev_def)

lemma populate_provider_raises:
  assumes "fn_center_mjr_axis_on_hull (env_shapely env) row = Inr gdf"
    and "deck_dem_exists env gdf" "open_deck_dem env gdf = Inr deck"
    and "ground_dem_local_proj env gdf = Inl err"
  shows "fn_populate_sta_ground_deck_elev env row = Inl err"
  using assms by (simp add: fn_populate_sta_ground_deck_elev_def)

lemma imap_list_all_return:
  "(\<forall>r \<in> set rows. \<exists>v. f r = Inr v) \<Longrightarrow> imap_list f rows = Inr (map (\<lambda>r. projr (f r)) rows)"
  by (induction rows) auto

lemma imap_list_raises:
  "r \<in> set rows \<Longrightarrow> f r = Inl err \<Longrightarrow> \<exists>e. imap_list f rows = Inl e"
  by (induction rows) (auto split: sum.splits)

lemma set_drop_none: "set (drop_none vs) = {v. Some v \<in> set vs}"
  by (induction vs rule: drop_none.induct) auto

lemma length_drop_none: "length (drop_none vs) = length (filter (\<lambda>v. v \<noteq> None) vs)"
  by (induction vs rule: drop_none.induct) auto

lemma demo_center_row:
  "fn_center_mjr_axis_on_hull rect_shapely (tiles_row s) = Inr (tiles_row s)"
  by (simp add: fn_center_mjr_axis_on_hull_def tiles_row_def demo_center_search)

lemma demo_center_demo_row:
  "fn_center_mjr_axis_on_hull rect_shapely demo_row = Inr demo_row"
  by (simp add: fn_center_mjr_axis_on_hull_def demo_center_search)

lemma tiles_ok_ground:
  "ground_dem_local_proj offline_env (tiles_row ''tiles_ok'') = Inr (Some (\<lambda>u v. Some 100))"
  by (simp add: ground_dem_local_proj_def ground_dem_provider_def tiles_row_def demo_row_def
      fn_get_ground_dem_rtree_def offline_env_def to_feet_def)

lemma tiles_ok_populate:
  "fn_populate_sta_ground_deck_elev offline_env (tiles_row ''tiles_ok'')
     = Inr (Some \<lparr>out_geometry = [(-1, 0), (11, 0)],
          out_hull_wkt = ''POLYGON ((0 -1, 10 -1, 10 3, 0 3, 0 -1))'',
          out_avg_width = 4, out_hull_idx = 0,
          out_file_path = ''aoi/07_major_axis_names/flip_mjr_axis_w_name_ln.shp'',
          out_sta = map real [0 ..< 12],
          out_ground_elv = map (\<lambda>i. Some 100) [0 ..< 12],
          out_deck_elev = map (\<lambda>i. Some 110) [0 ..< 12]\<rparr>)"
proof -
  have c: "fn_center_mjr_axis_on_hull (env_shapely offline_env) (tiles_row ''tiles_ok'')
      = Inr (tiles_row ''tiles_ok'')"
    using demo_center_row by (simp add: offline_env_def)
  have g: "geometry (tiles_row ''tiles_ok'') = [(-1, 0), (11, 0)]"
    by (simp add: tiles_row_def demo_row_def)
  have d: "deck_dem_exists offline_env (tiles_row ''tiles_ok'')"
    "open_deck_dem offline_env (tiles_row ''tiles_ok'') = Inr (\<lambda>u v. Some 110)"
    "env_savgol offline_env = checked_savgol (\<lambda>ys w p. ys)"
    by (simp_all add: offline_env_def)
  show ?thesis
    unfolding fn_populate_sta_ground_deck_elev_def c
    by (simp add: d tiles_ok_ground g demo_profile demo_smooth Let_def)
      (simp add: tiles_row_def demo_row_def o_def upt_eval)
qed

lemma remote_unreachable:
  "ground_dem_local_proj offline_env demo_row = Inl URLError"
  by (simp add: ground_dem_local_proj_def ground_dem_provider_def demo_row_def
      fn_get_ground_dem_from_usgs_service_def offline_env_def)

lemma demo_populate_raises:
  "fn_populate_sta_ground_deck_elev offline_env demo_row = Inl URLError"
proof -
  have c: "fn_center_mjr_axis_on_hull (env_shapely offline_env) demo_row = Inr demo_row"
    using demo_center_demo_row by (simp add: offline_env_def)
  have d: "deck_dem_exists offline_env demo_row"
    "open_deck_dem offline_env demo_row = Inr (\<lambda>u v. Some 110)"
    by (simp_all add: offline_env_def)
  from populate_provider_raises [OF c d remote_unreachable] show ?thesis .
qed

lemma tiles_bad_ground:
  "ground_dem_local_proj offline_env (tiles_row ''tiles_bad'') = Inr None"
  by (simp add: ground_dem_local_proj_def ground_dem_provider_def tiles_row_def demo_row_def
      fn_get_ground_dem_rtree_def offline_env_def)

subsection \<open>C8: a row without a ground raster\<close>

text \<open>
  Claim C8 as stated fails: a row whose ground raster comes from the remote service
  (\<open>cog_ground_dem = 'None'\<close>) has no ground raster when the service does not answer, and
  then the request raises inside \<open>fn_get_ground_dem_from_usgs_service\<close>, nothing catches
  it, the worker raises and the batch, which holds a good row too, is aborted.
\<close>

theorem unreachable_service_aborts_batch:
  "ground_dem_local_proj offline_env demo_row = Inl URLError
   \<and> fn_populate_sta_ground_deck_elev offline_env demo_row = Inl URLError
   \<and> (\<exists>out. fn_populate_sta_ground_deck_elev offline_env (tiles_row ''tiles_ok'') = Inr (Some out))
   \<and> profile_batch offline_env [tiles_row ''tiles_ok'', demo_row] = Inl URLError"
  by (simp add: remote_unreachable demo_populate_raises tiles_ok_populate profile_batch_def)

text \<open>
  Claim C8, amended. The worker returns a null result when its centering and deck raster
  steps complete and the ground provider returns without a raster; only the tile index
  does that, exactly when every tile it finds fails to open with \<open>RasterioIOError\<close> (or
  it finds none). When every worker returns, the caller's result is the list of the
  results that are not null, so a null row does not abort the batch. An exception of a
  provider is not turned into a null result: it leaves the worker, and an exception of
  one worker aborts the batch.
\<close>

theorem null_rows_are_skipped:
  "(fn_center_mjr_axis_on_hull (env_shapely env) row = Inr gdf
      \<and> deck_dem_exists env gdf \<and> open_deck_dem env gdf = Inr deck
      \<and> ground_dem_local_proj env gdf = Inr None
      \<longrightarrow> fn_populate_sta_ground_deck_elev env row = Inr None)
   \<and> (ground_dem_local_proj env gdf = Inr None \<longleftrightarrow>
        ground_dem_provider (cog_ground_dem gdf) = TileIndex
        \<and> (\<exists>paths. rtree_hits env gdf = Inr paths
             \<and> (\<forall>p \<in> set paths. open_tile env p = Inl RasterioIOError)))
   \<and> ((\<forall>r \<in> set rows. \<exists>v. fn_populate_sta_ground_deck_elev env r = Inr v) \<longrightarrow>
        profile_batch env rows
          = Inr (drop_none (map (\<lambda>r. projr (fn_populate_sta_ground_deck_elev env r)) rows)))
   \<and> set (drop_none vs) = {v. Some v \<in> set vs}
   \<and> (fn_center_mjr_axis_on_hull (env_shapely env) row = Inr gdf
      \<and> deck_dem_exists env gdf \<and> open_deck_dem env gdf = Inr deck
      \<and> ground_dem_local_proj env gdf = Inl err
      \<longrightarrow> fn_populate_sta_ground_deck_elev env row = Inl err)
   \<and> (r \<in> set rows \<and> fn_populate_sta_ground_deck_elev env r = Inl err
      \<longrightarrow> (\<exists>e. profile_batch env rows = Inl e))"
proof -
  have a: "fn_center_mjr_axis_on_hull (env_shapely env) row = Inr gdf
      \<and> deck_dem_exists env gdf \<and> open_deck_dem env gdf = Inr deck
      \<and> ground_dem_local_proj env gdf = Inr None
      \<longrightarrow> fn_populate_sta_ground_deck_elev env row = Inr None"
    using populate_None by blast
  have c: "(\<forall>r \<in> set rows. \<exists>v. fn_populate_sta_ground_deck_elev env r = Inr v) \<longrightarrow>
        profile_batch env rows
          = Inr (drop_none (map (\<lambda>r. projr (fn_populate_sta_ground_deck_elev env r)) rows))"
    using imap_list_all_return [of rows "fn_populate_sta_ground_deck_elev env"]
    by (simp add: profile_batch_def)
  have e: "fn_center_mjr_axis_on_hull (env_shapely env) row = Inr gdf
      \<and> deck_dem_exists env gdf \<and> open_deck_dem env gdf = Inr deck
      \<and> ground_dem_local_proj env gdf = Inl err
      \<longrightarrow> fn_populate_sta_ground_deck_elev env row = Inl err"
    using populate_provider_raises by blast
  have f: "r \<in> set rows \<and> fn_populate_sta_ground_deck_elev env r = Inl err
      \<longrightarrow> (\<exists>e. profile_batch env rows = Inl e)"
    using imap_list_raises [of r rows "fn_populate_sta_ground_deck_elev env" err]
    by (auto simp: profile_batch_def)
  from a ground_None_iff [of env gdf] c set_drop_none [of vs] e f show ?thesis
    by blast
qed

theorem null_rows_are_skipped_witness:
  "fn_populate_sta_ground_deck_elev offline_env (tiles_row ''tiles_bad'') = Inr None
   \<and> ground_dem_provider (cog_ground_dem (tiles_row ''tiles_bad'')) = TileIndex
   \<and> rtree_hits offline_env (tiles_row ''tiles_bad'') = Inr [''bad.img'']
   \<and> open_tile offline_env ''bad.img'' = Inl RasterioIOError
   \<and> length (projr (profile_batch offline_env
        [tiles_row ''tiles_bad'', tiles_row ''tiles_ok'', tiles_row ''tiles_bad''])) = 1
   \<and> (\<exists>e. profile_batch offline_env [tiles_row ''tiles_ok'', demo_row] = Inl e)"
proof -
  let ?bad = "tiles_row ''tiles_bad''"
  let ?ok = "tiles_row ''tiles_ok''"
  let ?rows = "[?bad, ?ok, ?bad]"
  note t = null_rows_are_skipped
    [where env = offline_env and row = ?bad and gdf = ?bad and deck = "\<lambda>u v. Some 110"
       and rows = ?rows and vs = "[]" and r = ?bad and err = URLError]
  have c: "fn_center_mjr_axis_on_hull (env_shapely offline_env) ?bad = Inr ?bad"
    using demo_center_row by (simp add: offline_env_def)
  have d: "deck_dem_exists offline_env ?bad"
    "open_deck_dem offline_env ?bad = Inr (\<lambda>u v. Some 110)"
    by (simp_all add: offline_env_def)
  from t c d tiles_bad_ground
  have n: "fn_populate_sta_ground_deck_elev offline_env ?bad = Inr None"
    by blast
  from t tiles_bad_ground
  have p: "ground_dem_provider (cog_ground_dem ?bad) = TileIndex"
    by blast
  have h: "rtree_hits offline_env ?bad = Inr [''bad.img'']"
    "open_tile offline_env ''bad.img'' = Inl RasterioIOError"
    by (simp_all add: offline_env_def tiles_row_def)
  have all: "\<forall>r \<in> set ?rows. \<exists>v. fn_populate_sta_ground_deck_elev offline_env r = Inr v"
    using n tiles_ok_populate by simp
  with t have
    "profile_batch offline_env ?rows
       = Inr (drop_none (map (\<lambda>r. projr (fn_populate_sta_ground_deck_elev offline_env r)) ?rows))"
    by blast
  then have b: "length (projr (profile_batch offline_env ?rows)) = 1"
    by (simp add: n tiles_ok_populate)
  from null_rows_are_skipped
    [where env = offline_env and rows = "[?ok, demo_row]" and r = demo_row and err = URLError
       and row = demo_row and gdf = demo_row and deck = "\<lambda>u v. None" and vs = "[]"]
    demo_populate_raises
  have a: "\<exists>e. profile_batch offline_env [?ok, demo_row] = Inl e"
    by simp
  from n p h b a show ?thesis by blast
qed

subsection \<open>The smoothed profile and its serialisation\<close>


lemma round2_grid: "\<exists>k::int. round2 v = real_of_int k / 100"
  unfolding round2_def by blast


lemma py_round2_grid: "py_round2 a = Some v \<Longrightarrow> \<exists>k::int. v = real_of_int k / 100"
proof -
  assume "py_round2 a = Some v"
  then obtain u where "v = round2 u"
    by (auto simp: py_round2_def split: option.splits)
  with round2_grid [of u] show ?thesis by simp
qed

lemma round2_ties_even:
  "round2 (125 / 1000) = 12 / 100 \<and> round2 (135 / 1000) = 14 / 100
   \<and> round2 (1234 / 1000) = 123 / 100 \<and> round2 (1236 / 1000) = 124 / 100"
  by (simp add: round2_def rint_def Let_def)







subsection \<open>C5: the smoothed profile\<close>



end
